theory Spec2Isabelle
  imports Complex_Main "HOL-Library.Char_ord" "HOL-Library.List_Lexorder"
begin

section \<open>Dataset Index (utils/iemocap\_loader\_ft.py, class IEMOCAP)\<close>

text \<open>
  A manifest row as \<open>pd.read_csv\<close> delivers it: the wav identifier, the emotion label
  and the three artifact paths, all strings.
\<close>

record row =
  wav_file :: string
  emotion :: string
  path_spmel :: string
  path_raptf0 :: string
  path_emb :: string

text \<open>
  A cell of the \<open>emotion\<close> column after \<open>replace(self.emo2idx)\<close>: the integer code
  where the label is a key of the dictionary, the label itself where it is not.
\<close>

datatype cell = Label string | Code nat

text \<open>
  A row of \<open>self.meta\<close> after \<open>preprocess\<close>: the pandas index label (the position of
  the row in the manifest), the original row, the replaced emotion cell and the derived
  session column.
\<close>

record irow =
  idx :: nat
  src :: row
  emo :: cell
  session :: string

record dataset =
  meta_train :: "irow list"
  meta_val :: "irow list"
  meta_test :: "irow list"
  class_weight :: "real list"

text \<open>
  \<open>{emo: idx for idx, emo in enumerate(selected_emos)}\<close>: a later occurrence of a label
  overwrites an earlier one.
\<close>

definition emo2idx :: "string list \<Rightarrow> (string \<rightharpoonup> nat)" where
  "emo2idx selected_emos = map_of (rev (zip selected_emos [0..<length selected_emos]))"

text \<open>\<open>Series.replace(dict)\<close> on one cell.\<close>

definition replace_cell :: "(string \<rightharpoonup> nat) \<Rightarrow> string \<Rightarrow> cell" where
  "replace_cell d e = (case d e of Some k \<Rightarrow> Code k | None \<Rightarrow> Label e)"

text \<open>The Python slice \<open>s[i:j]\<close> for \<open>0 \<le> i \<le> j\<close>.\<close>

definition py_slice :: "nat \<Rightarrow> nat \<Rightarrow> 'a list \<Rightarrow> 'a list" where
  "py_slice i j xs = take (j - i) (drop i xs)"

text \<open>\<open>self.meta["wav_file"].apply(lambda s: s[3:5])\<close>\<close>

definition session_of :: "string \<Rightarrow> string" where
  "session_of s = py_slice 3 5 s"

text \<open>The rows of the manifest with their index labels.\<close>

definition indexed :: "row list \<Rightarrow> (nat \<times> row) list" where
  "indexed meta = zip [0..<length meta] meta"

text \<open>\<open>self.meta.loc[self.meta["emotion"].isin(self.selected_emos)]\<close>\<close>

definition select_emos :: "string list \<Rightarrow> (nat \<times> row) list \<Rightarrow> (nat \<times> row) list" where
  "select_emos selected_emos rows = filter (\<lambda>(i, r). emotion r \<in> set selected_emos) rows"

definition encode_row :: "string list \<Rightarrow> nat \<times> row \<Rightarrow> irow" where
  "encode_row selected_emos p =
     \<lparr>idx = fst p, src = snd p,
      emo = replace_cell (emo2idx selected_emos) (emotion (snd p)),
      session = session_of (wav_file (snd p))\<rparr>"

text \<open>The filtered, encoded manifest with its session column (lines 46 to 50).\<close>

definition filtered_meta :: "string list \<Rightarrow> row list \<Rightarrow> irow list" where
  "filtered_meta selected_emos meta =
     map (encode_row selected_emos) (select_emos selected_emos (indexed meta))"

definition is_train :: "irow \<Rightarrow> bool" where
  "is_train r = (session r = ''01'' \<or> session r = ''02'' \<or> session r = ''03'')"

definition is_val :: "irow \<Rightarrow> bool" where
  "is_val r = (session r = ''04'')"

definition is_test :: "irow \<Rightarrow> bool" where
  "is_test r = (session r = ''05'')"

text \<open>The integer codes among the cells of a column.\<close>

fun codes :: "cell list \<Rightarrow> nat list" where
  "codes [] = []"
| "codes (Code k # cs) = k # codes cs"
| "codes (Label s # cs) = codes cs"

text \<open>\<open>np.unique\<close>: the distinct values, ascending.\<close>

definition np_unique :: "nat list \<Rightarrow> nat list" where
  "np_unique y = sort (remdups y)"

text \<open>
  scikit-learn's \<open>compute_class_weight("balanced", classes, y)\<close>: for each class, in the
  order of \<open>classes\<close>, \<open>n_samples / (n_classes * bincount(y)[class])\<close>. Floating-point
  numbers are modelled as the reals they denote.
\<close>

definition compute_class_weight :: "nat list \<Rightarrow> nat list \<Rightarrow> real list" where
  "compute_class_weight classes y =
     map (\<lambda>c. real (length y) / (real (length classes) * real (count_list y c))) classes"

text \<open>\<open>self.meta_train.emotion.values\<close>\<close>

definition train_labels :: "irow list \<Rightarrow> nat list" where
  "train_labels train = codes (map emo train)"

definition preprocess :: "string list \<Rightarrow> row list \<Rightarrow> dataset" where
  "preprocess selected_emos meta =
     (let m = filtered_meta selected_emos meta;
          train = filter is_train m;
          y = train_labels train
      in \<lparr>meta_train = train,
          meta_val = filter is_val m,
          meta_test = filter is_test m,
          class_weight = compute_class_weight (np_unique y) y\<rparr>)"

text \<open>
  The entry of the weight vector that belongs to a label: the vector is positional over
  \<open>np.unique\<close> of the train labels, so a label absent from the train partition has none.
\<close>

definition weight_of :: "dataset \<Rightarrow> nat \<Rightarrow> real option" where
  "weight_of d c = map_of (zip (np_unique (train_labels (meta_train d))) (class_weight d)) c"

section \<open>Batch Assembler (utils/iemocap\_loader\_ft.py, class MyCollator)\<close>

text \<open>
  The exceptions the two scripts can raise by themselves. Failures inside the numeric
  and I/O libraries (a file that does not decode, a full disk) are outside the model.
\<close>

datatype error =
    NameError string
  | KeyError string
  | ValueError
  | AssertionError
  | StopIteration

text \<open>
  A two-dimensional array keeps its column count also when it has no row, as a numpy
  array of shape \<open>(0, 80)\<close> does.
\<close>

record spect =
  nbins :: nat
  frames :: "real list list"

text \<open>
  One item of the dataset, as \<open>__getitem__\<close> returns it: spectrogram, speaker
  embedding, pitch contour and emotion cell.
\<close>

type_synonym token = "spect \<times> real list \<times> real list \<times> cell"

text \<open>
  The three length settings read from \<open>hparams\<close> (a module that is not part of the
  sources): frame counts, taken as natural numbers.
\<close>

record hparams =
  min_len_seq :: nat
  max_len_seq :: nat
  max_len_pad :: nat

text \<open>
  The global random source of numpy as a stream of raw draws: \<open>randint(lo, hi)\<close> consumes
  one draw and returns a value of \<open>[lo, hi)\<close>; it raises when the range is empty.
\<close>

type_synonym rng = "nat \<Rightarrow> nat"

definition randint :: "rng \<Rightarrow> nat \<Rightarrow> nat \<Rightarrow> error + (nat \<times> rng)" where
  "randint g lo hi =
     (if hi \<le> lo then Inl ValueError
      else Inr (lo + g 0 mod (hi - lo), \<lambda>n. g (Suc n)))"

definition sentinel :: real where
  "sentinel = - 10000000000"

text \<open>\<open>np.clip(a, 0, 1)\<close>\<close>

definition clip01 :: "real list list \<Rightarrow> real list list" where
  "clip01 a = map (map (\<lambda>v. min 1 (max 0 v))) a"

text \<open>
  \<open>np.pad(a, ((0, max_len_pad - a.shape[0]), (0, 0)), "constant")\<close>: a negative pad
  width raises, otherwise rows of the fill value are appended. The width is written as
  the comparison the subtraction of integers stands for.
\<close>

definition pad_rows :: "nat \<Rightarrow> nat \<Rightarrow> real \<Rightarrow> real list list \<Rightarrow> error + real list list" where
  "pad_rows pad_len width v a =
     (if pad_len < length a then Inl ValueError
      else Inr (a @ replicate (pad_len - length a) (replicate width v)))"

text \<open>\<open>c[:, np.newaxis]\<close>\<close>

definition newaxis :: "real list \<Rightarrow> real list list" where
  "newaxis c = map (\<lambda>v. [v]) c"

text \<open>
  Lines 118 to 126: the crop. The result is the kept spectrogram rows, the kept pitch
  contour, \<open>len_crop\<close>, the chosen offset (when a window was drawn) and the random source.
\<close>

definition crop :: "hparams \<Rightarrow> rng \<Rightarrow> spect \<Rightarrow> real list
    \<Rightarrow> error + (real list list \<times> real list \<times> nat \<times> nat option \<times> rng)" where
  "crop hp g aa c =
     (if length (frames aa) > max_len_seq hp then
        (let len_crop = max_len_seq hp in
         case randint g 0 (length (frames aa) - len_crop) of
           Inl e \<Rightarrow> Inl e
         | Inr (left, g') \<Rightarrow>
             Inr (py_slice left (left + len_crop) (frames aa),
                  py_slice left (left + len_crop) c, len_crop, Some left, g'))
      else Inr (frames aa, c, length (frames aa), None, g))"

type_synonym padded = "real list list \<times> real list \<times> real list list \<times> nat \<times> cell"

text \<open>The body of the loop over the batch (lines 118 to 137).\<close>

definition collate_token :: "hparams \<Rightarrow> rng \<Rightarrow> token \<Rightarrow> error + (padded \<times> rng)" where
  "collate_token hp g tok =
     (case tok of (aa, b, c, e) \<Rightarrow>
        (case crop hp g aa c of
           Inl err \<Rightarrow> Inl err
         | Inr (a, c', len_crop, left, g') \<Rightarrow>
             (case pad_rows (max_len_pad hp) (nbins aa) 0 (clip01 a) of
                Inl err \<Rightarrow> Inl err
              | Inr a_pad \<Rightarrow>
                  (case pad_rows (max_len_pad hp) 1 sentinel (newaxis c') of
                     Inl err \<Rightarrow> Inl err
                   | Inr c_pad \<Rightarrow> Inr ((a_pad, b, c_pad, len_crop, e), g')))))"

fun collate_tokens :: "hparams \<Rightarrow> rng \<Rightarrow> token list \<Rightarrow> error + (padded list \<times> rng)" where
  "collate_tokens hp g [] = Inr ([], g)"
| "collate_tokens hp g (tok # toks) =
     (case collate_token hp g tok of
        Inl err \<Rightarrow> Inl err
      | Inr (p, g') \<Rightarrow>
          (case collate_tokens hp g' toks of
             Inl err \<Rightarrow> Inl err
           | Inr (ps, g'') \<Rightarrow> Inr (p # ps, g'')))"

text \<open>
  \<open>np.stack\<close> raises unless all arrays have one shape; the shape of an array is given
  by a key.
\<close>

definition np_stack :: "('a \<Rightarrow> 'k) \<Rightarrow> 'a list \<Rightarrow> error + 'a list" where
  "np_stack shape xs =
     (case xs of
        [] \<Rightarrow> Inl ValueError
      | x # _ \<Rightarrow> (if list_all (\<lambda>y. shape y = shape x) xs then Inr xs else Inl ValueError))"

definition shape2 :: "real list list \<Rightarrow> nat \<times> nat list" where
  "shape2 a = (length a, map length a)"

text \<open>The batch handed to the training loop: \<open>melsp, spk_emb, pitch, len_org\<close>.\<close>

type_synonym batch =
  "real list list list \<times> real list list \<times> real list list list \<times> nat list"

text \<open>
  \<open>MyCollator.__call__\<close>. Unpacking \<open>zip(*batch)\<close> of an empty batch into five names
  raises \<open>ValueError\<close>. The labels are stacked into \<open>emo_org\<close> (so they must stack),
  and the \<open>return\<close> statement names the other four arrays.
\<close>

definition collate :: "hparams \<Rightarrow> rng \<Rightarrow> token list \<Rightarrow> error + (batch \<times> rng)" where
  "collate hp g toks =
     (case collate_tokens hp g toks of
        Inl err \<Rightarrow> Inl err
      | Inr (new_batch, g') \<Rightarrow>
          (if new_batch = [] then Inl ValueError
           else
             (case np_stack shape2 (map (\<lambda>(a, b, c, d, e). a) new_batch) of
                Inl err \<Rightarrow> Inl err
              | Inr melsp \<Rightarrow>
             (case np_stack length (map (\<lambda>(a, b, c, d, e). b) new_batch) of
                Inl err \<Rightarrow> Inl err
              | Inr spk_emb \<Rightarrow>
             (case np_stack shape2 (map (\<lambda>(a, b, c, d, e). c) new_batch) of
                Inl err \<Rightarrow> Inl err
              | Inr pitch \<Rightarrow>
             (case np_stack (\<lambda>d. ()) (map (\<lambda>(a, b, c, d, e). d) new_batch) of
                Inl err \<Rightarrow> Inl err
              | Inr len_org \<Rightarrow>
             (case np_stack (\<lambda>e. ()) (map (\<lambda>(a, b, c, d, e). e) new_batch) of
                Inl err \<Rightarrow> Inl err
              | Inr emo_org \<Rightarrow> Inr ((melsp, spk_emb, pitch, len_org), g'))))))))"

section \<open>Feature extraction (Decomposition/make\_spect\_f0.py)\<close>

text \<open>
  A path is the list of the components handed to \<open>os.path.join\<close>. The output side of
  the file system is the list of directories that exist and the log of \<open>np.save\<close> calls.
\<close>

type_synonym path = "string list"

text \<open>
  A floating-point result that may fail to be a finite number: \<open>None\<close> stands for numpy's
  \<open>nan\<close> and infinities (the mean of no value, a division by zero).
\<close>

type_synonym npfloat = "real option"

datatype artifact =
    Spmel "real list list"
  | Raptf0 "npfloat list"
  | Emb "real list"

record out_state =
  dirs :: "path list"
  saved :: "(path \<times> artifact) list"

text \<open>
  The string-valued names of the module's global namespace. Reading a name that no
  statement has bound raises \<open>NameError\<close>.
\<close>

type_synonym globals = "string \<rightharpoonup> string"

definition lookup :: "globals \<Rightarrow> string \<Rightarrow> error + string" where
  "lookup g n = (case g n of None \<Rightarrow> Inl (NameError n) | Some v \<Rightarrow> Inr v)"

text \<open>
  Lines 29 to 31, the only assignments of directory names in the module; the imports
  bind \<open>os\<close>, \<open>sys\<close>, \<open>pickle\<close>, \<open>np\<close>, \<open>signal\<close>, \<open>mel\<close>, \<open>RandomState\<close>, \<open>sptk\<close>,
  \<open>butter_highpass\<close>, \<open>speaker_normalization\<close>, \<open>pySTFT\<close>, \<open>librosa\<close>, \<open>VoiceEncoder\<close>
  and \<open>preprocess_wav\<close>, and there is no star import.
\<close>

definition module_globals :: globals where
  "module_globals =
     [''rootDir'' \<mapsto> ''assets/vctk_full'',
      ''targetDir_f0'' \<mapsto> ''assets/vctk_full_raptf0'',
      ''targetDir'' \<mapsto> ''assets/vctk_full_spmel'']"

text \<open>
  The library calls of the script, as parameters: \<open>os.walk\<close> (first item of the
  generator, \<open>None\<close> when it yields nothing), the unpickled speaker table,
  \<open>librosa.load\<close>, \<open>signal.filtfilt(b, a, .)\<close>, Python's \<open>int\<close> on a string,
  \<open>RandomState\<close> (the stream of its draws, \<open>None\<close> for a seed it rejects),
  \<open>encoder.embed_utterance(preprocess_wav(.))\<close>, \<open>pySTFT(.).T\<close>,
  \<open>np.dot(., mel_basis)\<close>, \<open>sptk.rapt\<close> and \<open>np.array(.).mean(axis=0)\<close>.
\<close>

record ext =
  os_walk :: "path \<Rightarrow> (string list \<times> string list) option"
  spk2gen :: "string \<rightharpoonup> string"
  librosa_load :: "path \<Rightarrow> real list \<times> nat"
  filtfilt :: "real list \<Rightarrow> real list"
  py_int :: "string \<Rightarrow> int option"
  random_state :: "int \<Rightarrow> (nat \<Rightarrow> real) option"
  embed_utterance :: "real list \<Rightarrow> real list"
  pySTFT :: "real list \<Rightarrow> real list list"
  dot_mel :: "real list list \<Rightarrow> real list list"
  rapt :: "real list \<Rightarrow> nat \<Rightarrow> nat \<Rightarrow> nat \<Rightarrow> nat \<Rightarrow> real list"
  mean_axis0 :: "real list list \<Rightarrow> real list"

text \<open>Lines 39 and 40: \<open>if not os.path.exists(p): os.makedirs(p)\<close>\<close>

definition ensure_dir :: "path \<Rightarrow> out_state \<Rightarrow> out_state" where
  "ensure_dir p st = (if p \<in> set (dirs st) then st else st\<lparr>dirs := dirs st @ [p]\<rparr>)"

definition np_save :: "path \<Rightarrow> artifact \<Rightarrow> out_state \<Rightarrow> out_state" where
  "np_save p a st = st\<lparr>saved := saved st @ [(p, a)]\<rparr>"

text \<open>Lines 47 to 52.\<close>

definition gender_bounds :: "(string \<rightharpoonup> string) \<Rightarrow> string \<Rightarrow> error + (nat \<times> nat)" where
  "gender_bounds tab subdir =
     (case tab subdir of
        None \<Rightarrow> Inl (KeyError subdir)
      | Some gen \<Rightarrow>
          (if gen = ''M'' then Inr (50, 250)
           else if gen = ''F'' then Inr (100, 600)
           else Inl ValueError))"

text \<open>Lines 63 and 64.\<close>

definition length_adjust :: "real list \<Rightarrow> real list" where
  "length_adjust x = (if length x mod 256 = 0 then x @ [1 / 1000000] else x)"

text \<open>\<open>prng.rand(n)\<close>: the next \<open>n\<close> draws, and the stream after them.\<close>

definition rand :: "(nat \<Rightarrow> real) \<Rightarrow> nat \<Rightarrow> real list \<times> (nat \<Rightarrow> real)" where
  "rand g n = (map g [0..<n], \<lambda>k. g (n + k))"

text \<open>Line 66: \<open>y * 0.96 + (prng.rand(y.shape[0]) - 0.5) * 1e-06\<close>\<close>

definition dither :: "real list \<Rightarrow> real list \<Rightarrow> real list" where
  "dither y r = map (\<lambda>(v, u). v * (96 / 100) + (u - 1 / 2) * (1 / 1000000)) (zip y r)"

text \<open>Line 21: \<open>np.exp(-100 / 20 * np.log(10))\<close>\<close>

definition min_level :: real where
  "min_level = exp (- 100 / 20 * ln 10)"

text \<open>Lines 75 and 76.\<close>

definition to_S :: "real list list \<Rightarrow> real list list" where
  "to_S D_mel = map (map (\<lambda>v. ((20 * log 10 (max min_level v) - 16) + 100) / 100)) D_mel"

text \<open>Line 82: \<open>f0_rapt != -1e10\<close>\<close>

definition index_nonzero :: "real list \<Rightarrow> bool list" where
  "index_nonzero f0 = map (\<lambda>v. v \<noteq> sentinel) f0"

text \<open>\<open>f0_rapt[index_nonzero]\<close>: selection by a boolean mask.\<close>

definition mask_select :: "'a list \<Rightarrow> bool list \<Rightarrow> 'a list" where
  "mask_select f0 m = map fst (filter snd (zip f0 m))"

text \<open>\<open>np.mean\<close> and \<open>np.std\<close> (the population standard deviation) of a vector.\<close>

definition np_mean :: "real list \<Rightarrow> npfloat" where
  "np_mean xs = (if xs = [] then None else Some (sum_list xs / real (length xs)))"

definition np_std :: "real list \<Rightarrow> npfloat" where
  "np_std xs =
     (case np_mean xs of
        None \<Rightarrow> None
      | Some m \<Rightarrow> Some (sqrt (sum_list (map (\<lambda>v. (v - m)\<^sup>2) xs) / real (length xs))))"

text \<open>
  Modelled from the spec: \<open>speaker_normalization\<close> of the module \<open>utils\<close> imported at
  line 11, which is not among the sources. The specification gives it as: voiced frames
  become the z-score \<open>(f0 - mean) / std\<close>, unvoiced frames retain the sentinel value.
\<close>

definition zscore :: "npfloat \<Rightarrow> npfloat \<Rightarrow> real \<Rightarrow> npfloat" where
  "zscore mean_f0 std_f0 v =
     (case (mean_f0, std_f0) of
        (Some m, Some s) \<Rightarrow> (if s = 0 then None else Some ((v - m) / s))
      | _ \<Rightarrow> None)"

definition speaker_normalization ::
    "real list \<Rightarrow> bool list \<Rightarrow> npfloat \<Rightarrow> npfloat \<Rightarrow> npfloat list" where
  "speaker_normalization f0 m mean_f0 std_f0 =
     map (\<lambda>(v, voiced). if voiced then zscore mean_f0 std_f0 v else Some v) (zip f0 m)"

text \<open>Lines 82 to 86.\<close>

definition normalize_f0 :: "real list \<Rightarrow> npfloat list" where
  "normalize_f0 f0_rapt =
     (let m = index_nonzero f0_rapt;
          mean_f0 = np_mean (mask_select f0_rapt m);
          std_f0 = np_std (mask_select f0_rapt m)
      in speaker_normalization f0_rapt m mean_f0 std_f0)"

text \<open>\<open>fileName[-4:]\<close> and \<open>fileName[:-4]\<close>\<close>

definition last4 :: "string \<Rightarrow> string" where
  "last4 s = drop (length s - 4) s"

definition stem :: "string \<Rightarrow> string" where
  "stem s = take (length s - 4) s"

text \<open>The state of the loop over the files of one speaker.\<close>

record ustate =
  out :: out_state
  prng :: "nat \<Rightarrow> real"
  uttr_embs :: "real list list"

text \<open>
  Lines 90 to 104: the three \<open>np.save\<close> calls; each reads its directory name from the
  global namespace when it is reached. An exception leaves the output as it is then.
\<close>

definition save_triple :: "globals \<Rightarrow> string \<Rightarrow> string \<Rightarrow> real list list \<Rightarrow> npfloat list
    \<Rightarrow> real list \<Rightarrow> out_state \<Rightarrow> error \<times> out_state + out_state" where
  "save_triple g subdir fileName S f0_norm uttr_emb st =
     (case lookup g ''targetDir'' of
        Inl e \<Rightarrow> Inl (e, st)
      | Inr d1 \<Rightarrow>
          (let st1 = np_save [d1, subdir, stem fileName] (Spmel S) st in
           case lookup g ''targetDir_f0'' of
             Inl e \<Rightarrow> Inl (e, st1)
           | Inr d2 \<Rightarrow>
               (let st2 = np_save [d2, subdir, stem fileName] (Raptf0 f0_norm) st1 in
                case lookup g ''targetDir_emb'' of
                  Inl e \<Rightarrow> Inl (e, st2)
                | Inr d3 \<Rightarrow> Inr (np_save [d3, subdir, stem fileName] (Emb uttr_emb) st2))))"

text \<open>
  Lines 63 to 86: from the loaded waveform to the spectrogram \<open>S\<close>, the raw pitch
  contour \<open>f0_rapt\<close>, the normalized contour \<open>f0_norm\<close>, the embedding, and the random
  stream after the dither.
\<close>

definition extract_features :: "ext \<Rightarrow> nat \<times> nat \<Rightarrow> (nat \<Rightarrow> real) \<Rightarrow> real list \<Rightarrow> nat
    \<Rightarrow> real list list \<times> real list \<times> npfloat list \<times> real list \<times> (nat \<Rightarrow> real)" where
  "extract_features x bounds gen x0 fs =
     (let x1 = length_adjust x0;
          y = filtfilt x x1;
          (r, gen') = rand gen (length y);
          wav = dither y r;
          uttr_emb = embed_utterance x wav;
          S = to_S (dot_mel x (pySTFT x wav));
          f0_rapt = rapt x (map (\<lambda>v. v * 32768) wav) fs 256 (fst bounds) (snd bounds);
          f0_norm = normalize_f0 f0_rapt
      in (S, f0_rapt, f0_norm, uttr_emb, gen'))"

text \<open>Lines 57 to 104: the body of the loop over the files of a speaker.\<close>

definition process_utterance :: "globals \<Rightarrow> ext \<Rightarrow> string \<Rightarrow> string \<Rightarrow> nat \<times> nat \<Rightarrow> string
    \<Rightarrow> ustate \<Rightarrow> error \<times> out_state + ustate" where
  "process_utterance g x dirName subdir bounds fileName us =
     (if last4 fileName \<noteq> ''.wav'' then Inr us
      else
        (case librosa_load x [dirName, subdir, fileName] of (x0, fs) \<Rightarrow>
           if fs \<noteq> 16000 then Inl (AssertionError, out us)
           else
             (case extract_features x bounds (prng us) x0 fs of
                (S, f0_rapt, f0_norm, uttr_emb, gen') \<Rightarrow>
                  if length S \<noteq> length f0_rapt then Inl (AssertionError, out us)
                  else
                    (case save_triple g subdir fileName S f0_norm uttr_emb (out us) of
                       Inl err \<Rightarrow> Inl err
                     | Inr st \<Rightarrow>
                         Inr \<lparr>out = st, prng = gen', uttr_embs = uttr_embs us @ [uttr_emb]\<rparr>))))"

fun process_files :: "globals \<Rightarrow> ext \<Rightarrow> string \<Rightarrow> string \<Rightarrow> nat \<times> nat \<Rightarrow> string list
    \<Rightarrow> ustate \<Rightarrow> error \<times> out_state + ustate" where
  "process_files g x dirName subdir bounds [] us = Inr us"
| "process_files g x dirName subdir bounds (f # fs) us =
     (case process_utterance g x dirName subdir bounds f us of
        Inl err \<Rightarrow> Inl err
      | Inr us' \<Rightarrow> process_files g x dirName subdir bounds fs us')"

text \<open>Lines 39 to 44: the three output directories of a speaker.\<close>

definition make_dirs :: "globals \<Rightarrow> string \<Rightarrow> out_state \<Rightarrow> error \<times> out_state + out_state" where
  "make_dirs g subdir st =
     (case lookup g ''targetDir'' of
        Inl e \<Rightarrow> Inl (e, st)
      | Inr d1 \<Rightarrow>
          (let st1 = ensure_dir [d1, subdir] st in
           case lookup g ''targetDir_f0'' of
             Inl e \<Rightarrow> Inl (e, st1)
           | Inr d2 \<Rightarrow>
               (let st2 = ensure_dir [d2, subdir] st1 in
                case lookup g ''targetDir_emb'' of
                  Inl e \<Rightarrow> Inl (e, st2)
                | Inr d3 \<Rightarrow> Inr (ensure_dir [d3, subdir] st2))))"

text \<open>Lines 37 to 111: the body of the loop over the speakers.\<close>

definition process_speaker :: "globals \<Rightarrow> ext \<Rightarrow> string \<Rightarrow> string \<Rightarrow> out_state
    \<Rightarrow> error \<times> out_state + out_state" where
  "process_speaker g x dirName subdir st =
     (case make_dirs g subdir st of
        Inl err \<Rightarrow> Inl err
      | Inr st3 \<Rightarrow>
          (case os_walk x [dirName, subdir] of
             None \<Rightarrow> Inl (StopIteration, st3)
           | Some (_, fileList) \<Rightarrow>
               (case gender_bounds (spk2gen x) subdir of
                  Inl e \<Rightarrow> Inl (e, st3)
                | Inr bounds \<Rightarrow>
                    (case py_int x (drop 1 subdir) of
                       None \<Rightarrow> Inl (ValueError, st3)
                     | Some seed \<Rightarrow>
                         (case random_state x seed of
                            None \<Rightarrow> Inl (ValueError, st3)
                          | Some gen \<Rightarrow>
                              (case process_files g x dirName subdir bounds (sort fileList)
                                      \<lparr>out = st3, prng = gen, uttr_embs = []\<rparr> of
                                 Inl err \<Rightarrow> Inl err
                               | Inr us \<Rightarrow>
                                   (let spkr_emb = mean_axis0 x (uttr_embs us) in
                                    case lookup g ''targetDir_emb'' of
                                      Inl e \<Rightarrow> Inl (e, out us)
                                    | Inr d3 \<Rightarrow>
                                        Inr (np_save [d3, subdir, subdir @ ''_avg'']
                                               (Emb spkr_emb) (out us)))))))))"

fun process_speakers :: "globals \<Rightarrow> ext \<Rightarrow> string \<Rightarrow> string list \<Rightarrow> out_state
    \<Rightarrow> error \<times> out_state + out_state" where
  "process_speakers g x dirName [] st = Inr st"
| "process_speakers g x dirName (subdir # rest) st =
     (case process_speaker g x dirName subdir st of
        Inl err \<Rightarrow> Inl err
      | Inr st' \<Rightarrow> process_speakers g x dirName rest st')"

text \<open>
  The script from line 33 on, run in a global namespace \<open>g\<close>; \<open>os.walk\<close> returns the
  root it was given as \<open>dirName\<close>.
\<close>

definition run_script :: "globals \<Rightarrow> ext \<Rightarrow> out_state \<Rightarrow> error \<times> out_state + out_state" where
  "run_script g x st =
     (case lookup g ''rootDir'' of
        Inl e \<Rightarrow> Inl (e, st)
      | Inr rootDir \<Rightarrow>
          (case os_walk x [rootDir] of
             None \<Rightarrow> Inl (StopIteration, st)
           | Some (subdirList, _) \<Rightarrow> process_speakers g x rootDir (sort subdirList) st))"

text \<open>The script as it is: run in the namespace its own statements build.\<close>

definition make_spect_f0 :: "ext \<Rightarrow> out_state \<Rightarrow> error \<times> out_state + out_state" where
  "make_spect_f0 x st = run_script module_globals x st"

text \<open>The output state an execution leaves behind, whether it raised or not.\<close>

definition final_out :: "error \<times> out_state + out_state \<Rightarrow> out_state" where
  "final_out r = (case r of Inl (e, st) \<Rightarrow> st | Inr st \<Rightarrow> st)"

text \<open>What the caller of the collator receives: the batch, or the exception.\<close>

definition returned :: "error + (batch \<times> rng) \<Rightarrow> error + batch" where
  "returned r = map_sum id fst r"

text \<open>The same token with another emotion cell.\<close>

definition set_label :: "cell \<Rightarrow> token \<Rightarrow> token" where
  "set_label l tok = (case tok of (aa, b, c, e) \<Rightarrow> (aa, b, c, l))"

section \<open>Sample inputs\<close>

text \<open>
  A small corpus with two speakers, one of them with a gender label that is neither
  \<open>M\<close> nor \<open>F\<close>, and library stand-ins that return two frames for every file.
\<close>

definition sample_ext :: ext where
  "sample_ext =
     \<lparr>os_walk = (\<lambda>p. if p = [''assets/vctk_full''] then Some ([''p226'', ''p225''], [])
                     else if p = [''assets/vctk_full'', ''p225''] then Some ([], [''a.wav'', ''b.txt''])
                     else if p = [''assets/vctk_full'', ''p226''] then Some ([], [''c.wav''])
                     else None),
      spk2gen = [''p225'' \<mapsto> ''F'', ''p226'' \<mapsto> ''X''],
      librosa_load = (\<lambda>p. ([0, 0], 16000)),
      filtfilt = (\<lambda>w. w),
      py_int = (\<lambda>s. Some 225),
      random_state = (\<lambda>n. Some (\<lambda>k. 1 / 2)),
      embed_utterance = (\<lambda>w. [1]),
      pySTFT = (\<lambda>w. [[1], [1]]),
      dot_mel = (\<lambda>D. D),
      rapt = (\<lambda>w fs hop lo hi. [100, 120]),
      mean_axis0 = (\<lambda>es. [1])\<rparr>"

text \<open>A namespace in which the embedding directory has been given a name.\<close>

definition sample_globals :: globals where
  "sample_globals = module_globals(''targetDir_emb'' \<mapsto> ''assets/vctk_full_emb'')"

definition empty_out :: out_state where
  "empty_out = \<lparr>dirs = [], saved = []\<rparr>"

text \<open>
  A file whose pitch contour has one frame where the spectrogram has two, the loop state
  at the start of a speaker, a small manifest, one with a row of a sixth session, and
  settings, random streams and utterances for the collator.
\<close>

definition short_pitch_ext :: ext where
  "short_pitch_ext = sample_ext\<lparr>rapt := (\<lambda>w fs hop lo hi. [100])\<rparr>"

definition start_state :: ustate where
  "start_state = \<lparr>out = empty_out, prng = (\<lambda>k. 1 / 2), uttr_embs = []\<rparr>"

definition mk_row :: "string \<Rightarrow> string \<Rightarrow> row" where
  "mk_row w e = \<lparr>wav_file = w, emotion = e, path_spmel = ''spmel/'' @ w,
                 path_raptf0 = ''raptf0/'' @ w, path_emb = ''emb/'' @ w\<rparr>"

definition sample_meta :: "row list" where
  "sample_meta =
     [mk_row ''Ses01F_impro01_F000'' ''ang'',
      mk_row ''Ses04M_script01_1_M003'' ''neu'',
      mk_row ''Ses05F_impro02_F010'' ''ang'',
      mk_row ''Ses02F_impro05_F001'' ''fru'',
      mk_row ''Ses03M_impro03_M002'' ''ang'',
      mk_row ''Ses01M_impro01_M004'' ''neu'']"

definition stray_meta :: "row list" where
  "stray_meta = [mk_row ''Ses06F_impro01_F000'' ''ang'']"

definition zero_rng :: rng where
  "zero_rng = (\<lambda>n. 0)"

definition seven_rng :: rng where
  "seven_rng = (\<lambda>n. 7)"

definition hp_20 :: hparams where
  "hp_20 = \<lparr>min_len_seq = 4, max_len_seq = 16, max_len_pad = 20\<rparr>"

definition hp_10_20 :: hparams where
  "hp_10_20 = \<lparr>min_len_seq = 4, max_len_seq = 10, max_len_pad = 20\<rparr>"

definition utt15 :: spect where
  "utt15 = \<lparr>nbins = 2, frames = replicate 15 [3 / 2, - 1]\<rparr>"

definition f0_15 :: "real list" where
  "f0_15 = replicate 15 (1 / 4)"

definition hp_2_4 :: hparams where
  "hp_2_4 = \<lparr>min_len_seq = 1, max_len_seq = 2, max_len_pad = 4\<rparr>"

definition utt4 :: spect where
  "utt4 = \<lparr>nbins = 2, frames = [[1 / 2, 1 / 2], [2, 0], [0, - 3], [1 / 4, 1]]\<rparr>"

definition utt1 :: spect where
  "utt1 = \<lparr>nbins = 2, frames = [[3 / 4, 1 / 4]]\<rparr>"

definition sample_batch :: "token list" where
  "sample_batch = [(utt4, [1, 2], [5, 6, 7, 8], Code 0), (utt1, [3, 4], [9], Code 2)]"

definition sample_melsp :: "real list list list" where
  "sample_melsp = [[[1, 0], [0, 0], [0, 0], [0, 0]], [[3 / 4, 1 / 4], [0, 0], [0, 0], [0, 0]]]"

definition sample_pitch :: "real list list list" where
  "sample_pitch = [[[6], [7], [sentinel], [sentinel]], [[9], [sentinel], [sentinel], [sentinel]]]"

section \<open>Dataset Index: properties\<close>

lemma in_indexed: "(i, r) \<in> set (indexed meta) \<longleftrightarrow> i < length meta \<and> meta ! i = r"
proof -
  have "indexed meta = enumerate 0 meta"
    by (simp add: indexed_def enumerate_eq_zip)
  then show ?thesis by (auto simp: in_set_enumerate_eq)
qed

lemma in_filtered_meta:
  "r \<in> set (filtered_meta sel meta) \<longleftrightarrow>
     (\<exists>i<length meta. emotion (meta ! i) \<in> set sel \<and> r = encode_row sel (i, meta ! i))"
  by (auto simp: filtered_meta_def select_emos_def in_indexed image_iff)

lemma idx_filter_session:
  "idx ` set (filter (\<lambda>r. Q (session r)) (filtered_meta sel meta)) =
     {i. i < length meta \<and> emotion (meta ! i) \<in> set sel \<and> Q (session_of (wav_file (meta ! i)))}"
  (is "?L = ?R")
proof
  show "?L \<subseteq> ?R"
    by (auto simp: in_filtered_meta encode_row_def)
  show "?R \<subseteq> ?L"
  proof
    fix i assume "i \<in> ?R"
    then have i: "i < length meta" "emotion (meta ! i) \<in> set sel"
      "Q (session_of (wav_file (meta ! i)))" by auto
    let ?r = "encode_row sel (i, meta ! i)"
    from i have "?r \<in> set (filtered_meta sel meta)" by (auto simp: in_filtered_meta)
    moreover have "Q (session ?r)" using i by (simp add: encode_row_def)
    moreover have "idx ?r = i" by (simp add: encode_row_def)
    ultimately show "i \<in> ?L" by (intro image_eqI[where x = ?r]) simp_all
  qed
qed

lemma preprocess_parts:
  "meta_train (preprocess sel meta) = filter is_train (filtered_meta sel meta)"
  "meta_val (preprocess sel meta) = filter is_val (filtered_meta sel meta)"
  "meta_test (preprocess sel meta) = filter is_test (filtered_meta sel meta)"
  by (simp_all add: preprocess_def Let_def)

lemma idx_train:
  "idx ` set (meta_train (preprocess sel meta)) =
     {i. i < length meta \<and> emotion (meta ! i) \<in> set sel \<and>
         session_of (wav_file (meta ! i)) \<in> {''01'', ''02'', ''03''}}"
    using idx_filter_session[of "\<lambda>s. s = ''01'' \<or> s = ''02'' \<or> s = ''03''" sel meta]
  by (simp add: preprocess_parts is_train_def[abs_def])

lemma idx_val:
  "idx ` set (meta_val (preprocess sel meta)) =
     {i. i < length meta \<and> emotion (meta ! i) \<in> set sel \<and>
         session_of (wav_file (meta ! i)) = ''04''}"
    using idx_filter_session[of "\<lambda>s. s = ''04''" sel meta]
  by (simp add: preprocess_parts is_val_def[abs_def])

lemma idx_test:
  "idx ` set (meta_test (preprocess sel meta)) =
     {i. i < length meta \<and> emotion (meta ! i) \<in> set sel \<and>
         session_of (wav_file (meta ! i)) = ''05''}"
    using idx_filter_session[of "\<lambda>s. s = ''05''" sel meta]
  by (simp add: preprocess_parts is_test_def[abs_def])

lemma partition_rows_src:
  assumes "r \<in> set (meta_train (preprocess sel meta)) \<union> set (meta_val (preprocess sel meta))
             \<union> set (meta_test (preprocess sel meta))"
  shows "idx r < length meta \<and> src r = meta ! idx r \<and> emotion (src r) \<in> set sel \<and>
         session r = session_of (wav_file (src r))"
proof -
  from assms have "r \<in> set (filtered_meta sel meta)" by (auto simp: preprocess_parts)
  then show ?thesis by (auto simp: in_filtered_meta encode_row_def)
qed

text \<open>
  Claim C2, as amended. For every manifest and every list of selected labels, the train,
  validation and test partitions are pairwise disjoint (as rows and as index labels),
  and the index labels of their union are those of the manifest rows whose label is
  selected and whose session, the characters at positions 3 and 4 of the wav identifier,
  is one of \<open>01\<close> to \<open>05\<close>. Every partition row is the manifest row at its index label.
\<close>

theorem partitions_disjoint_cover_sessions:
  fixes sel meta
  defines "d \<equiv> preprocess sel meta"
  defines "tr \<equiv> idx ` set (meta_train d)" and "va \<equiv> idx ` set (meta_val d)"
    and "te \<equiv> idx ` set (meta_test d)"
  shows
  "tr \<inter> va = {} \<and> tr \<inter> te = {} \<and> va \<inter> te = {} \<and>
   set (meta_train d) \<inter> set (meta_val d) = {} \<and>
   set (meta_train d) \<inter> set (meta_test d) = {} \<and>
   set (meta_val d) \<inter> set (meta_test d) = {} \<and>
   tr \<union> va \<union> te =
     {i. i < length meta \<and> emotion (meta ! i) \<in> set sel \<and>
         session_of (wav_file (meta ! i)) \<in> {''01'', ''02'', ''03'', ''04'', ''05''}} \<and>
   (\<forall>r \<in> set (meta_train d) \<union> set (meta_val d) \<union> set (meta_test d).
      idx r < length meta \<and> src r = meta ! idx r \<and> emotion (src r) \<in> set sel \<and>
      session r = session_of (wav_file (src r)))"
proof -
  have tr: "tr = {i. i < length meta \<and> emotion (meta ! i) \<in> set sel \<and>
         session_of (wav_file (meta ! i)) \<in> {''01'', ''02'', ''03''}}"
    unfolding tr_def d_def by (rule idx_train)
  have va: "va = {i. i < length meta \<and> emotion (meta ! i) \<in> set sel \<and>
         session_of (wav_file (meta ! i)) = ''04''}"
    unfolding va_def d_def by (rule idx_val)
  have te: "te = {i. i < length meta \<and> emotion (meta ! i) \<in> set sel \<and>
         session_of (wav_file (meta ! i)) = ''05''}"
    unfolding te_def d_def by (rule idx_test)
  have 1: "tr \<inter> va = {}" "tr \<inter> te = {}" "va \<inter> te = {}"
    unfolding tr va te by auto
  have 2: "set (meta_train d) \<inter> set (meta_val d) = {}"
    "set (meta_train d) \<inter> set (meta_test d) = {}"
    "set (meta_val d) \<inter> set (meta_test d) = {}"
    unfolding d_def preprocess_parts by (auto simp: is_train_def is_val_def is_test_def)
  have 3: "tr \<union> va \<union> te =
     {i. i < length meta \<and> emotion (meta ! i) \<in> set sel \<and>
         session_of (wav_file (meta ! i)) \<in> {''01'', ''02'', ''03'', ''04'', ''05''}}"
    unfolding tr va te by auto
  have 4: "\<forall>r \<in> set (meta_train d) \<union> set (meta_val d) \<union> set (meta_test d).
      idx r < length meta \<and> src r = meta ! idx r \<and> emotion (src r) \<in> set sel \<and>
      session r = session_of (wav_file (src r))"
    unfolding d_def using partition_rows_src by blast
  from 1 2 3 4 show ?thesis by blast
qed

lemma sample_parts:
  "map idx (meta_train (preprocess [''ang'', ''neu''] sample_meta)) = [0, 4, 5]"
  "map idx (meta_val (preprocess [''ang'', ''neu''] sample_meta)) = [1]"
  "map idx (meta_test (preprocess [''ang'', ''neu''] sample_meta)) = [2]"
  by (simp_all add: preprocess_parts filtered_meta_def select_emos_def indexed_def sample_meta_def
      mk_row_def encode_row_def is_train_def is_val_def is_test_def session_of_def py_slice_def
      upt_rec[of 0] upt_rec [of "Suc _"])

theorem partitions_disjoint_cover_sessions_witness:
  "idx ` set (meta_train (preprocess [''ang'', ''neu''] sample_meta)) = {0, 4, 5} \<and>
   idx ` set (meta_val (preprocess [''ang'', ''neu''] sample_meta)) = {1} \<and>
   idx ` set (meta_test (preprocess [''ang'', ''neu''] sample_meta)) = {2} \<and>
   {0, 4, 5} \<inter> {1::nat} = {} \<and>
   {0, 4, 5} \<union> {1} \<union> {2} =
     {i. i < length sample_meta \<and> emotion (sample_meta ! i) \<in> set [''ang'', ''neu''] \<and>
         session_of (wav_file (sample_meta ! i)) \<in> {''01'', ''02'', ''03'', ''04'', ''05''}}"
proof -
  have s: "idx ` set (meta_train (preprocess [''ang'', ''neu''] sample_meta)) = {0, 4, 5}"
    "idx ` set (meta_val (preprocess [''ang'', ''neu''] sample_meta)) = {1}"
    "idx ` set (meta_test (preprocess [''ang'', ''neu''] sample_meta)) = {2}"
    using sample_parts by (simp_all flip: set_map)
  show ?thesis
    using partitions_disjoint_cover_sessions[of "[''ang'', ''neu'']" sample_meta] unfolding s by simp
qed

theorem partitions_drop_other_sessions:
  "meta_train (preprocess [''ang''] stray_meta) = [] \<and>
   meta_val (preprocess [''ang''] stray_meta) = [] \<and>
   meta_test (preprocess [''ang''] stray_meta) = [] \<and>
   map idx (filtered_meta [''ang''] stray_meta) = [0] \<and>
   emotion (stray_meta ! 0) \<in> set [''ang'']"
  by (simp add: preprocess_parts filtered_meta_def select_emos_def indexed_def stray_meta_def
      mk_row_def encode_row_def is_train_def is_val_def is_test_def session_of_def py_slice_def)

lemma set_np_unique: "set (np_unique y) = set y"
  by (simp add: np_unique_def)

lemma class_weight_preprocess:
  "class_weight (preprocess sel meta) =
     compute_class_weight (np_unique (train_labels (meta_train (preprocess sel meta))))
       (train_labels (meta_train (preprocess sel meta)))"
  by (simp add: preprocess_def Let_def)

lemma weight_of_eq:
  fixes sel meta
  defines "d \<equiv> preprocess sel meta"
  defines "y \<equiv> train_labels (meta_train d)"
  shows "weight_of d c =
     (if c \<in> set y
      then Some (real (length y) / (real (length (np_unique y)) * real (count_list y c)))
      else None)"
  unfolding weight_of_def d_def y_def class_weight_preprocess compute_class_weight_def
  by (simp add: map_of_zip_map set_np_unique)

lemma count_codes: "count_list (codes cs) k = count_list cs (Code k)"
  by (induction cs rule: codes.induct) simp_all

lemma sample_labels:
  "train_labels (meta_train (preprocess [''ang'', ''neu''] sample_meta)) = [0, 0, 1]"
  by (simp add: preprocess_def Let_def filtered_meta_def select_emos_def indexed_def
      sample_meta_def mk_row_def encode_row_def is_train_def session_of_def py_slice_def
      train_labels_def replace_cell_def emo2idx_def upt_rec[of 0] upt_rec [of "Suc _"])

lemma weight_less:
  fixes n k a b :: nat
  assumes "b < a" "0 < b" "0 < n" "0 < k"
  shows "real n / (real k * real a) < real n / (real k * real b)"
proof -
  have "real k * real b < real k * real a" using assms by simp
  moreover have "0 < real k * real b" using assms by simp
  moreover have "0 < real n" using assms by simp
  ultimately show ?thesis by (simp add: divide_strict_left_mono)
qed

text \<open>
  Claim C10. A label has a class weight exactly when it occurs in the train partition,
  and among such labels the weight is strictly decreasing in the frequency: if label
  \<open>A\<close> occurs strictly more often than label \<open>B\<close>, then the weight of \<open>A\<close> is strictly
  smaller than the weight of \<open>B\<close>.
\<close>

theorem class_weight_decreasing_in_frequency:
  fixes sel meta
  defines "d \<equiv> preprocess sel meta"
  defines "y \<equiv> train_labels (meta_train d)"
  shows
  "(\<forall>c. count_list y c = count_list (map emo (meta_train d)) (Code c)) \<and>
   (\<forall>c. weight_of d c \<noteq> None \<longleftrightarrow> 0 < count_list y c) \<and>
   (\<forall>A B. count_list y B < count_list y A \<and> 0 < count_list y B \<longrightarrow>
      (\<exists>wa wb. weight_of d A = Some wa \<and> weight_of d B = Some wb \<and> wa < wb))"
proof (intro conjI allI impI)
  fix c
  show "count_list y c = count_list (map emo (meta_train d)) (Code c)"
    by (simp add: y_def train_labels_def count_codes)
  show "weight_of d c \<noteq> None \<longleftrightarrow> 0 < count_list y c"
    unfolding d_def y_def weight_of_eq
    using count_list_0_iff[of "train_labels (meta_train (preprocess sel meta))" c] by auto
next
  fix A B assume h: "count_list y B < count_list y A \<and> 0 < count_list y B"
  then have B: "B \<in> set y" and A: "A \<in> set y"
    by (auto simp: count_list_0_iff intro: ccontr)
  then have n: "0 < length y" by (cases y) auto
  have "B \<in> set (np_unique y)" using B by (simp add: set_np_unique)
  then have "np_unique y \<noteq> []" by auto
  then have k: "0 < length (np_unique y)" by simp
  have wa: "weight_of d A = Some (real (length y) / (real (length (np_unique y)) * real (count_list y A)))"
    unfolding d_def using A weight_of_eq[of sel meta A] by (simp add: y_def d_def)
  have wb: "weight_of d B = Some (real (length y) / (real (length (np_unique y)) * real (count_list y B)))"
    unfolding d_def using B weight_of_eq[of sel meta B] by (simp add: y_def d_def)
  from weight_less[of "count_list y B" "count_list y A" "length y" "length (np_unique y)"] h n k wa wb
  show "\<exists>wa wb. weight_of d A = Some wa \<and> weight_of d B = Some wb \<and> wa < wb" by simp
qed

theorem class_weight_decreasing_in_frequency_witness:
  "weight_of (preprocess [''ang'', ''neu''] sample_meta) 0 = Some (3 / 4) \<and>
   weight_of (preprocess [''ang'', ''neu''] sample_meta) 1 = Some (3 / 2) \<and>
   (\<exists>wa wb. weight_of (preprocess [''ang'', ''neu''] sample_meta) 0 = Some wa \<and>
      weight_of (preprocess [''ang'', ''neu''] sample_meta) 1 = Some wb \<and> wa < wb)"
proof -
  have c: "count_list [0, 0, 1::nat] 1 < count_list [0, 0, 1::nat] 0 \<and> 0 < count_list [0, 0, 1::nat] 1"
    by simp
  have w: "weight_of (preprocess [''ang'', ''neu''] sample_meta) 0 = Some (3 / 4)"
    "weight_of (preprocess [''ang'', ''neu''] sample_meta) 1 = Some (3 / 2)"
    by (simp_all add: weight_of_def class_weight_preprocess sample_labels np_unique_def
        compute_class_weight_def)
  have "\<exists>wa wb. weight_of (preprocess [''ang'', ''neu''] sample_meta) 0 = Some wa \<and>
      weight_of (preprocess [''ang'', ''neu''] sample_meta) 1 = Some wb \<and> wa < wb"
    using class_weight_decreasing_in_frequency[of "[''ang'', ''neu'']" sample_meta, unfolded sample_labels] c by blast
  with w show ?thesis by blast
qed

section \<open>Batch Assembler: properties\<close>

lemma py_slice_window: "py_slice left (left + n) xs = take n (drop left xs)"
  by (simp add: py_slice_def)

lemma crop_short:
  "length (frames aa) \<le> max_len_seq hp \<Longrightarrow>
     crop hp g aa c = Inr (frames aa, c, length (frames aa), None, g)"
  by (simp add: crop_def)

lemma crop_long:
  assumes "max_len_seq hp < length (frames aa)"
  shows "crop hp g aa c =
     Inr (take (max_len_seq hp) (drop (g 0 mod (length (frames aa) - max_len_seq hp)) (frames aa)),
          take (max_len_seq hp) (drop (g 0 mod (length (frames aa) - max_len_seq hp)) c),
          max_len_seq hp, Some (g 0 mod (length (frames aa) - max_len_seq hp)), \<lambda>n. g (Suc n))"
  using assms by (simp add: crop_def randint_def Let_def py_slice_window)

lemma left_in_range:
  assumes "(L::nat) < n"
  shows "r mod (n - L) + L < n"
proof -
  have "r mod (n - L) < n - L" using assms by simp
  then show ?thesis by linarith
qed

lemma crop_len:
  "crop hp g aa c = Inr (a, c', n, left, g') \<Longrightarrow>
     n = min (length (frames aa)) (max_len_seq hp) \<and> length a = n \<and> length c' \<le> length c
     \<and> (length c = length (frames aa) \<longrightarrow> length c' = n)"
proof (cases "max_len_seq hp < length (frames aa)")
  case True
  assume "crop hp g aa c = Inr (a, c', n, left, g')"
  with True left_in_range[OF True, of "g 0"] show ?thesis
    by (auto simp: crop_long)
next
  case False
  assume "crop hp g aa c = Inr (a, c', n, left, g')"
  with False show ?thesis by (auto simp: crop_short)
qed

lemma crop_total: "\<exists>r. crop hp g aa c = Inr r"
  by (cases "max_len_seq hp < length (frames aa)") (simp_all add: crop_long crop_short)

lemma collate_token_Inr:
  assumes "collate_token hp g (aa, b, c, e) = Inr ((a_pad, b', c_pad, n, e'), g')"
  shows "\<exists>a c' left. crop hp g aa c = Inr (a, c', n, left, g') \<and>
      length a \<le> max_len_pad hp \<and> length c' \<le> max_len_pad hp \<and>
      a_pad = clip01 a @ replicate (max_len_pad hp - length a) (replicate (nbins aa) 0) \<and>
      c_pad = newaxis c' @ replicate (max_len_pad hp - length c') [sentinel] \<and>
      b' = b \<and> e' = e"
  using assms
  by (auto simp: collate_token_def pad_rows_def clip01_def newaxis_def
      split: sum.splits if_splits prod.splits)

text \<open>
  Claim C5. An utterance of at most \<open>max_len_seq\<close> frames passes through uncropped, with
  its true frame count as crop length and without a draw from the random source. A
  longer one gets the crop length \<open>max_len_seq\<close>, and what is kept is the window
  \<open>[left, left + max_len_seq)\<close> of the original, inside its bounds, with the one offset
  \<open>left\<close> for the spectrogram and the pitch contour. The crop length the collator
  returns for a token is this one.
\<close>

theorem crop_keeps_contiguous_window:
  "(length (frames aa) \<le> max_len_seq hp \<longrightarrow>
      crop hp g aa c = Inr (frames aa, c, length (frames aa), None, g)) \<and>
   (max_len_seq hp < length (frames aa) \<longrightarrow>
      (\<exists>left g'. crop hp g aa c =
           Inr (take (max_len_seq hp) (drop left (frames aa)),
                take (max_len_seq hp) (drop left c), max_len_seq hp, Some left, g') \<and>
         left + max_len_seq hp < length (frames aa) \<and>
         length (take (max_len_seq hp) (drop left (frames aa))) = max_len_seq hp \<and>
         (\<forall>i<max_len_seq hp.
            take (max_len_seq hp) (drop left (frames aa)) ! i = frames aa ! (left + i)) \<and>
         (\<forall>i. i < max_len_seq hp \<and> left + i < length c \<longrightarrow>
            take (max_len_seq hp) (drop left c) ! i = c ! (left + i)))) \<and>
   (\<forall>a_pad b' c_pad n e' g'.
      collate_token hp g (aa, b, c, e) = Inr ((a_pad, b', c_pad, n, e'), g') \<longrightarrow>
      n = min (length (frames aa)) (max_len_seq hp) \<and>
      (\<exists>a c' left. crop hp g aa c = Inr (a, c', n, left, g')))"
proof (intro conjI impI allI)
  assume "length (frames aa) \<le> max_len_seq hp"
  then show "crop hp g aa c = Inr (frames aa, c, length (frames aa), None, g)"
    by (rule crop_short)
next
  assume long: "max_len_seq hp < length (frames aa)"
  let ?left = "g 0 mod (length (frames aa) - max_len_seq hp)"
  have r: "?left + max_len_seq hp < length (frames aa)"
    using left_in_range[OF long] .
  show "\<exists>left g'. crop hp g aa c =
           Inr (take (max_len_seq hp) (drop left (frames aa)),
                take (max_len_seq hp) (drop left c), max_len_seq hp, Some left, g') \<and>
         left + max_len_seq hp < length (frames aa) \<and>
         length (take (max_len_seq hp) (drop left (frames aa))) = max_len_seq hp \<and>
         (\<forall>i<max_len_seq hp.
            take (max_len_seq hp) (drop left (frames aa)) ! i = frames aa ! (left + i)) \<and>
         (\<forall>i. i < max_len_seq hp \<and> left + i < length c \<longrightarrow>
            take (max_len_seq hp) (drop left c) ! i = c ! (left + i))"
  proof (intro exI[of _ ?left] exI[of _ "\<lambda>n. g (Suc n)"] conjI allI impI)
    show "crop hp g aa c =
        Inr (take (max_len_seq hp) (drop ?left (frames aa)),
             take (max_len_seq hp) (drop ?left c), max_len_seq hp, Some ?left, \<lambda>n. g (Suc n))"
      using long by (rule crop_long)
    show "?left + max_len_seq hp < length (frames aa)" by (rule r)
    show "length (take (max_len_seq hp) (drop ?left (frames aa))) = max_len_seq hp"
      using r by simp
    show "take (max_len_seq hp) (drop ?left (frames aa)) ! i = frames aa ! (?left + i)"
      if "i < max_len_seq hp" for i
      using that r by simp
    show "take (max_len_seq hp) (drop ?left c) ! i = c ! (?left + i)"
      if "i < max_len_seq hp \<and> ?left + i < length c" for i
      using that by simp
  qed
next
  fix a_pad b' c_pad n e' g'
  assume h: "collate_token hp g (aa, b, c, e) = Inr ((a_pad, b', c_pad, n, e'), g')"
  from collate_token_Inr[OF h] obtain a c' left where
    cr: "crop hp g aa c = Inr (a, c', n, left, g')" by blast
  from crop_len[OF cr] show "n = min (length (frames aa)) (max_len_seq hp)" by simp
  from cr show "\<exists>a c' left. crop hp g aa c = Inr (a, c', n, left, g')" by blast
qed

theorem crop_keeps_contiguous_window_witness:
  "crop hp_20 seven_rng utt15 f0_15 = Inr (frames utt15, f0_15, 15, None, seven_rng) \<and>
   (\<exists>left g'. crop hp_10_20 seven_rng utt15 f0_15 =
       Inr (take 10 (drop left (frames utt15)), take 10 (drop left f0_15), 10, Some left, g') \<and>
       left + 10 < 15)"
proof -
  have s: "length (frames utt15) \<le> max_len_seq hp_20"
    by (simp add: utt15_def hp_20_def)
  have l: "max_len_seq hp_10_20 < length (frames utt15)"
    by (simp add: utt15_def hp_10_20_def)
  have n: "length (frames utt15) = 15" "max_len_seq hp_10_20 = 10"
    by (simp_all add: utt15_def hp_10_20_def)
  from crop_keeps_contiguous_window[of utt15 hp_20 seven_rng f0_15] s
  have a: "crop hp_20 seven_rng utt15 f0_15 = Inr (frames utt15, f0_15, 15, None, seven_rng)"
    by (simp add: utt15_def)
  from crop_keeps_contiguous_window[of utt15 hp_10_20 seven_rng f0_15] l
  have b: "\<exists>left g'. crop hp_10_20 seven_rng utt15 f0_15 =
       Inr (take 10 (drop left (frames utt15)), take 10 (drop left f0_15), 10, Some left, g') \<and>
       left + 10 < 15"
    unfolding n by blast
  from a b show ?thesis by blast
qed

lemma clip01_bounds: "row \<in> set (clip01 a) \<Longrightarrow> v \<in> set row \<Longrightarrow> 0 \<le> v \<and> v \<le> 1"
  by (auto simp: clip01_def)

lemma length_clip01 [simp]: "length (clip01 a) = length a"
  by (simp add: clip01_def)

lemma length_newaxis [simp]: "length (newaxis c) = length c"
  by (simp add: newaxis_def)

lemma collate_token_ok:
  assumes "crop hp g aa c = Inr (a, c', n, left, g')"
    "length a \<le> max_len_pad hp" "length c' \<le> max_len_pad hp"
  shows "collate_token hp g (aa, b, c, e) =
     Inr ((clip01 a @ replicate (max_len_pad hp - length a) (replicate (nbins aa) 0), b,
           newaxis c' @ replicate (max_len_pad hp - length c') [sentinel], n, e), g')"
  using assms by (simp add: collate_token_def pad_rows_def)

lemma collate_single:
  assumes "collate_token hp g tok = Inr ((a_pad, b, c_pad, n, e), g')"
  shows "collate hp g [tok] = Inr (([a_pad], [b], [c_pad], [n]), g')"
  using assms by (simp add: collate_def np_stack_def)

text \<open>
  Claim C6, as amended. Whenever the collator accepts a token, the spectrogram it returns
  is the kept rows clipped to \<open>[0, 1]\<close> followed by zero rows, and the pitch is the kept
  contour followed by entries \<open>-1e10\<close>, both of length \<open>max_len_pad\<close>; it accepts every
  token whose two lengths agree when \<open>max_len_seq \<le> max_len_pad\<close>. With \<open>max_len_pad = 20\<close>,
  \<open>max_len_seq\<close> at least 15 and one utterance of 15 frames, the batch has 15 clipped rows
  and 5 zero rows, 15 pitch entries and 5 entries \<open>-1e10\<close>, and the crop length 15.
\<close>

theorem clip_then_pad_to_max_len_pad:
  "(\<forall>a_pad b' c_pad n e' g'.
      collate_token hp g (aa, b, c, e) = Inr ((a_pad, b', c_pad, n, e'), g') \<longrightarrow>
      (\<exists>a c' left. crop hp g aa c = Inr (a, c', n, left, g') \<and>
         a_pad = clip01 a @ replicate (max_len_pad hp - length a) (replicate (nbins aa) 0) \<and>
         c_pad = newaxis c' @ replicate (max_len_pad hp - length c') [sentinel] \<and>
         (\<forall>row \<in> set (clip01 a). \<forall>v \<in> set row. 0 \<le> v \<and> v \<le> 1) \<and>
         length a_pad = max_len_pad hp \<and> length c_pad = max_len_pad hp)) \<and>
   (max_len_seq hp \<le> max_len_pad hp \<and> length c = length (frames aa) \<longrightarrow>
      (\<exists>r. collate_token hp g (aa, b, c, e) = Inr r)) \<and>
   (max_len_pad hp = 20 \<and> 15 \<le> max_len_seq hp \<and> length (frames aa) = 15 \<and> length c = 15 \<longrightarrow>
      collate hp g [(aa, b, c, e)] =
        Inr (([clip01 (frames aa) @ replicate 5 (replicate (nbins aa) 0)], [b],
              [newaxis c @ replicate 5 [sentinel]], [15]), g))"
proof (intro conjI impI allI)
  fix a_pad b' c_pad n e' g'
  assume h: "collate_token hp g (aa, b, c, e) = Inr ((a_pad, b', c_pad, n, e'), g')"
  from collate_token_Inr[OF h] obtain a c' left where
    cr: "crop hp g aa c = Inr (a, c', n, left, g')"
    and la: "length a \<le> max_len_pad hp" and lc: "length c' \<le> max_len_pad hp"
    and ap: "a_pad = clip01 a @ replicate (max_len_pad hp - length a) (replicate (nbins aa) 0)"
    and cp: "c_pad = newaxis c' @ replicate (max_len_pad hp - length c') [sentinel]"
    by blast
  have "length a_pad = max_len_pad hp" using ap la by simp
  moreover have "length c_pad = max_len_pad hp" using cp lc by simp
  moreover have "\<forall>row \<in> set (clip01 a). \<forall>v \<in> set row. 0 \<le> v \<and> v \<le> 1"
    using clip01_bounds by blast
  ultimately show "\<exists>a c' left. crop hp g aa c = Inr (a, c', n, left, g') \<and>
         a_pad = clip01 a @ replicate (max_len_pad hp - length a) (replicate (nbins aa) 0) \<and>
         c_pad = newaxis c' @ replicate (max_len_pad hp - length c') [sentinel] \<and>
         (\<forall>row \<in> set (clip01 a). \<forall>v \<in> set row. 0 \<le> v \<and> v \<le> 1) \<and>
         length a_pad = max_len_pad hp \<and> length c_pad = max_len_pad hp"
    using cr ap cp by blast
next
  assume h: "max_len_seq hp \<le> max_len_pad hp \<and> length c = length (frames aa)"
  obtain a c' n left g' where cr: "crop hp g aa c = Inr (a, c', n, left, g')"
    using crop_total[of hp g aa c] by (metis prod_cases5)
  from crop_len[OF cr] h have "length a \<le> max_len_pad hp" "length c' \<le> max_len_pad hp"
    by auto
  from collate_token_ok[OF cr this] show "\<exists>r. collate_token hp g (aa, b, c, e) = Inr r"
    by blast
next
  assume h: "max_len_pad hp = 20 \<and> 15 \<le> max_len_seq hp \<and> length (frames aa) = 15 \<and>
    length c = 15"
  then have cr: "crop hp g aa c = Inr (frames aa, c, 15, None, g)"
    using crop_short[of aa hp g c] by simp
  have "collate_token hp g (aa, b, c, e) =
     Inr ((clip01 (frames aa) @ replicate (max_len_pad hp - length (frames aa)) (replicate (nbins aa) 0), b,
           newaxis c @ replicate (max_len_pad hp - length c) [sentinel], 15, e), g)"
    using h by (intro collate_token_ok[OF cr]) simp_all
  then have "collate_token hp g (aa, b, c, e) =
     Inr ((clip01 (frames aa) @ replicate 5 (replicate (nbins aa) 0), b,
           newaxis c @ replicate 5 [sentinel], 15, e), g)"
    using h by simp
  then show "collate hp g [(aa, b, c, e)] =
        Inr (([clip01 (frames aa) @ replicate 5 (replicate (nbins aa) 0)], [b],
              [newaxis c @ replicate 5 [sentinel]], [15]), g)"
    by (rule collate_single)
qed

theorem clip_then_pad_to_max_len_pad_witness:
  "collate hp_20 seven_rng [(utt15, [1, 2], f0_15, Code 0)] =
     Inr (([replicate 15 [1, 0] @ replicate 5 [0, 0]], [[1, 2]],
           [replicate 15 [1 / 4] @ replicate 5 [sentinel]], [15]), seven_rng)"
proof -
  have h: "max_len_pad hp_20 = 20 \<and> 15 \<le> max_len_seq hp_20 \<and> length (frames utt15) = 15 \<and>
    length f0_15 = 15"
    by (simp add: hp_20_def utt15_def f0_15_def)
  have c: "clip01 (frames utt15) = replicate 15 [1, 0]"
    by (simp add: clip01_def utt15_def)
  have n: "newaxis f0_15 = replicate 15 [1 / 4]"
    by (simp add: newaxis_def f0_15_def)
  have z: "replicate (nbins utt15) (0::real) = [0, 0]"
    by (simp add: utt15_def numeral_2_eq_2)
  from clip_then_pad_to_max_len_pad[of hp_20 seven_rng utt15 "[1, 2]" f0_15 "Code 0"] h
  show ?thesis unfolding c n z by blast
qed

theorem crop_length_follows_max_len_seq:
  "returned (collate hp_10_20 zero_rng [(utt15, [1, 2], f0_15, Code 0)]) =
     Inr ([replicate 10 [1, 0] @ replicate 10 [0, 0]], [[1, 2]],
          [replicate 10 [1 / 4] @ replicate 10 [sentinel]], [10])"
proof -
  have cr: "crop hp_10_20 zero_rng utt15 f0_15 =
      Inr (replicate 10 [3 / 2, - 1], replicate 10 (1 / 4), 10, Some 0, \<lambda>n. zero_rng (Suc n))"
    by (simp add: crop_long hp_10_20_def utt15_def f0_15_def zero_rng_def)
  have "collate_token hp_10_20 zero_rng (utt15, [1, 2], f0_15, Code 0) =
     Inr ((replicate 10 [1, 0] @ replicate 10 [0, 0], [1, 2],
           replicate 10 [1 / 4] @ replicate 10 [sentinel], 10, Code 0), \<lambda>n. zero_rng (Suc n))"
    using collate_token_ok[OF cr, of "[1, 2]" "Code 0"]
    by (simp add: hp_10_20_def clip01_def newaxis_def utt15_def numeral_2_eq_2)
  from collate_single[OF this] show ?thesis by (simp add: returned_def)
qed

lemma collate_tokens_Inr:
  "collate_tokens hp g toks = Inr (ps, g') \<Longrightarrow>
     length ps = length toks \<and>
     (\<forall>i<length toks. \<exists>gi gi'. collate_token hp gi (toks ! i) = Inr (ps ! i, gi'))"
proof (induction toks arbitrary: g ps)
  case Nil
  then show ?case by simp
next
  case (Cons tok toks)
  from Cons.prems obtain p g1 ps' where
    t: "collate_token hp g tok = Inr (p, g1)" and
    r: "collate_tokens hp g1 toks = Inr (ps', g')" and
    ps: "ps = p # ps'"
    by (auto split: sum.splits)
  from Cons.IH[OF r] have ih: "length ps' = length toks"
    "\<forall>i<length toks. \<exists>gi gi'. collate_token hp gi (toks ! i) = Inr (ps' ! i, gi')"
    by auto
  show ?case
  proof (intro conjI allI impI)
    show "length ps = length (tok # toks)" using ih ps by simp
    fix i assume "i < length (tok # toks)"
    then show "\<exists>gi gi'. collate_token hp gi ((tok # toks) ! i) = Inr (ps ! i, gi')"
      using t ih ps by (cases i) auto
  qed
qed

lemma np_stack_Inr: "np_stack k xs = Inr ys \<Longrightarrow> ys = xs"
  by (auto simp: np_stack_def split: list.splits if_splits)

lemma collate_Inr:
  assumes "collate hp g toks = Inr ((melsp, spk_emb, pitch, len_org), g')"
  shows "\<exists>ps. collate_tokens hp g toks = Inr (ps, g') \<and>
      melsp = map (\<lambda>(a, b, c, d, e). a) ps \<and> spk_emb = map (\<lambda>(a, b, c, d, e). b) ps \<and>
      pitch = map (\<lambda>(a, b, c, d, e). c) ps \<and> len_org = map (\<lambda>(a, b, c, d, e). d) ps"
  using assms
  by (auto simp: collate_def split: sum.splits if_splits dest!: np_stack_Inr)

lemma collate_aligned:
  assumes "collate hp g toks = Inr ((melsp, spk_emb, pitch, len_org), g')"
  shows "length melsp = length toks \<and> length spk_emb = length toks \<and>
     length pitch = length toks \<and> length len_org = length toks \<and>
     (\<forall>i<length toks.
        (case toks ! i of (aa, b, c, e) \<Rightarrow>
           spk_emb ! i = b \<and>
           len_org ! i = min (length (frames aa)) (max_len_seq hp) \<and>
           length (melsp ! i) = max_len_pad hp \<and> length (pitch ! i) = max_len_pad hp \<and>
           (\<exists>gi gi' a c' left. crop hp gi aa c = Inr (a, c', len_org ! i, left, gi') \<and>
              melsp ! i =
                clip01 a @ replicate (max_len_pad hp - length a) (replicate (nbins aa) 0) \<and>
              pitch ! i = newaxis c' @ replicate (max_len_pad hp - length c') [sentinel])))"
proof -
  from collate_Inr[OF assms] obtain ps where
    ps: "collate_tokens hp g toks = Inr (ps, g')" and
    m: "melsp = map (\<lambda>(a, b, c, d, e). a) ps" and s: "spk_emb = map (\<lambda>(a, b, c, d, e). b) ps" and
    p: "pitch = map (\<lambda>(a, b, c, d, e). c) ps" and l: "len_org = map (\<lambda>(a, b, c, d, e). d) ps"
    by blast
  from collate_tokens_Inr[OF ps] have len: "length ps = length toks" and
    each: "\<forall>i<length toks. \<exists>gi gi'. collate_token hp gi (toks ! i) = Inr (ps ! i, gi')"
    by auto
  have "case toks ! i of (aa, b, c, e) \<Rightarrow>
           spk_emb ! i = b \<and>
           len_org ! i = min (length (frames aa)) (max_len_seq hp) \<and>
           length (melsp ! i) = max_len_pad hp \<and> length (pitch ! i) = max_len_pad hp \<and>
           (\<exists>gi gi' a c' left. crop hp gi aa c = Inr (a, c', len_org ! i, left, gi') \<and>
              melsp ! i =
                clip01 a @ replicate (max_len_pad hp - length a) (replicate (nbins aa) 0) \<and>
              pitch ! i = newaxis c' @ replicate (max_len_pad hp - length c') [sentinel])"
    if i: "i < length toks" for i
  proof -
    obtain aa b c e where tok: "toks ! i = (aa, b, c, e)" by (cases "toks ! i") auto
    obtain a_pad b' c_pad n e' where pi: "ps ! i = (a_pad, b', c_pad, n, e')"
      by (cases "ps ! i") auto
    from each i tok pi obtain gi gi' where
      ct: "collate_token hp gi (aa, b, c, e) = Inr ((a_pad, b', c_pad, n, e'), gi')"
      by metis
    from collate_token_Inr[OF ct] obtain a c' left where
      cr: "crop hp gi aa c = Inr (a, c', n, left, gi')"
      and la: "length a \<le> max_len_pad hp" and lc: "length c' \<le> max_len_pad hp"
      and ap: "a_pad = clip01 a @ replicate (max_len_pad hp - length a) (replicate (nbins aa) 0)"
      and cp: "c_pad = newaxis c' @ replicate (max_len_pad hp - length c') [sentinel]"
      and bb: "b' = b"
      by blast
    have mi: "melsp ! i = a_pad" "spk_emb ! i = b'" "pitch ! i = c_pad" "len_org ! i = n"
      using i len pi by (simp_all add: m s p l)
    have n: "n = min (length (frames aa)) (max_len_seq hp)" using crop_len[OF cr] by simp
    have "length a_pad = max_len_pad hp" using ap la by simp
    moreover have "length c_pad = max_len_pad hp" using cp lc by simp
    moreover have "\<exists>gi gi' a c' left. crop hp gi aa c = Inr (a, c', n, left, gi') \<and>
        a_pad = clip01 a @ replicate (max_len_pad hp - length a) (replicate (nbins aa) 0) \<and>
        c_pad = newaxis c' @ replicate (max_len_pad hp - length c') [sentinel]"
      using cr ap cp by blast
    ultimately show ?thesis
      unfolding tok mi prod.case using bb n by blast
  qed
  then show ?thesis using len by (simp add: m s p l)
qed

lemma collate_token_set_label:
  "collate_token hp g (set_label l tok) =
     map_sum id (\<lambda>((a, b, c, d, e), g'). ((a, b, c, d, l), g')) (collate_token hp g tok)"
  by (cases tok) (auto simp: collate_token_def set_label_def split: sum.splits)

lemma collate_tokens_set_label:
  "collate_tokens hp g (map (set_label l) toks) =
     map_sum id (\<lambda>(ps, g'). (map (\<lambda>(a, b, c, d, e). (a, b, c, d, l)) ps, g'))
       (collate_tokens hp g toks)"
proof (induction toks arbitrary: g)
  case Nil
  then show ?case by simp
next
  case (Cons tok toks)
  show ?case
    by (cases "collate_token hp g tok")
      (auto simp: collate_token_set_label Cons.IH split: sum.splits)
qed

lemma proj_relabel:
  "map (\<lambda>(a, b, c, d, e). a) (map (\<lambda>(a, b, c, d, e). (a, b, c, d, l)) ps) = map (\<lambda>(a, b, c, d, e). a) ps"
  "map (\<lambda>(a, b, c, d, e). b) (map (\<lambda>(a, b, c, d, e). (a, b, c, d, l)) ps) = map (\<lambda>(a, b, c, d, e). b) ps"
  "map (\<lambda>(a, b, c, d, e). c) (map (\<lambda>(a, b, c, d, e). (a, b, c, d, l)) ps) = map (\<lambda>(a, b, c, d, e). c) ps"
  "map (\<lambda>(a, b, c, d, e). d) (map (\<lambda>(a, b, c, d, e). (a, b, c, d, l)) ps) = map (\<lambda>(a, b, c, d, e). d) ps"
  by (auto simp: split_def)

lemma proj_relabel_comp:
  "(\<lambda>(a, b, c, d, e). a) \<circ> (\<lambda>(a, b, c, d, e). (a, b, c, d, l)) = (\<lambda>(a, b, c, d, e). a)"
  "(\<lambda>(a, b, c, d, e). b) \<circ> (\<lambda>(a, b, c, d, e). (a, b, c, d, l)) = (\<lambda>(a, b, c, d, e). b)"
  "(\<lambda>(a, b, c, d, e). c) \<circ> (\<lambda>(a, b, c, d, e). (a, b, c, d, l)) = (\<lambda>(a, b, c, d, e). c)"
  "(\<lambda>(a, b, c, d, e). d) \<circ> (\<lambda>(a, b, c, d, e). (a, b, c, d, l)) = (\<lambda>(a, b, c, d, e). d)"
  by (auto simp: fun_eq_iff)

lemma np_stack_unit: "np_stack (\<lambda>e. ()) xs = (if xs = [] then Inl ValueError else Inr xs)"
  by (cases xs) (auto simp: np_stack_def list_all_iff)

lemma collate_ignores_labels:
  "collate hp g (map (set_label l) toks) = collate hp g toks"
proof (cases "collate_tokens hp g toks")
  case (Inl err)
  then show ?thesis by (simp add: collate_def collate_tokens_set_label)
next
  case (Inr r)
  obtain ps g' where r: "r = (ps, g')" by (cases r)
  show ?thesis
    using Inr r
    by (simp add: collate_def collate_tokens_set_label proj_relabel proj_relabel_comp np_stack_unit
        cong: sum.case_cong)
qed

lemma sample_collate:
  "collate hp_2_4 seven_rng sample_batch =
     Inr ((sample_melsp, [[1, 2], [3, 4]], sample_pitch, [2, 1]), \<lambda>n. seven_rng (Suc n))"
proof -
  have cr: "crop hp_2_4 seven_rng utt4 [5, 6, 7, 8] =
      Inr ([[2, 0], [0, - 3]], [6, 7], 2, Some 1, \<lambda>n. seven_rng (Suc n))"
    by (simp add: crop_long hp_2_4_def utt4_def seven_rng_def numeral_2_eq_2[symmetric])
  have t1: "collate_token hp_2_4 seven_rng (utt4, [1, 2], [5, 6, 7, 8], Code 0) =
     Inr (([[1, 0], [0, 0], [0, 0], [0, 0]], [1, 2], [[6], [7], [sentinel], [sentinel]], 2, Code 0),
          \<lambda>n. seven_rng (Suc n))"
    using collate_token_ok[OF cr, of "[1, 2]" "Code 0"]
    by (simp add: hp_2_4_def clip01_def newaxis_def utt4_def eval_nat_numeral)
  have cr2: "crop hp_2_4 (\<lambda>n. seven_rng (Suc n)) utt1 [9] =
      Inr (frames utt1, [9], 1, None, \<lambda>n. seven_rng (Suc n))"
    using crop_short[of utt1 hp_2_4 "\<lambda>n. seven_rng (Suc n)" "[9]"]
    by (simp add: hp_2_4_def utt1_def)
  have t2: "collate_token hp_2_4 (\<lambda>n. seven_rng (Suc n)) (utt1, [3, 4], [9], Code 2) =
     Inr (([[3 / 4, 1 / 4], [0, 0], [0, 0], [0, 0]], [3, 4],
           [[9], [sentinel], [sentinel], [sentinel]], 1, Code 2), \<lambda>n. seven_rng (Suc n))"
    using collate_token_ok[OF cr2, of "[3, 4]" "Code 2"]
    by (simp add: hp_2_4_def clip01_def newaxis_def utt1_def eval_nat_numeral)
  have ts: "collate_tokens hp_2_4 seven_rng sample_batch =
     Inr ([([[1, 0], [0, 0], [0, 0], [0, 0]], [1, 2], [[6], [7], [sentinel], [sentinel]], 2, Code 0),
           ([[3 / 4, 1 / 4], [0, 0], [0, 0], [0, 0]], [3, 4],
            [[9], [sentinel], [sentinel], [sentinel]], 1, Code 2)], \<lambda>n. seven_rng (Suc n))"
    by (simp add: sample_batch_def t1 t2)
  show ?thesis
    by (simp add: collate_def ts np_stack_def shape2_def sample_melsp_def sample_pitch_def)
qed

text \<open>
  Claim C3, as amended. A batch the collator returns has one entry per token in each of
  its four arrays and, at each position, the embedding of that token, its crop length
  (the smaller of its frame count and \<open>max_len_seq\<close>), its clipped and padded spectrogram
  and its padded pitch contour. The emotion cells are not part of it: the same batch is
  returned whatever the cells are.
\<close>

theorem batch_aligned_labels_not_returned:
  assumes "collate hp g toks = Inr ((melsp, spk_emb, pitch, len_org), g')"
  shows "length melsp = length toks \<and> length spk_emb = length toks \<and>
     length pitch = length toks \<and> length len_org = length toks \<and>
     (\<forall>i<length toks.
        (case toks ! i of (aa, b, c, e) \<Rightarrow>
           spk_emb ! i = b \<and>
           len_org ! i = min (length (frames aa)) (max_len_seq hp) \<and>
           length (melsp ! i) = max_len_pad hp \<and> length (pitch ! i) = max_len_pad hp \<and>
           (\<exists>gi gi' a c' left. crop hp gi aa c = Inr (a, c', len_org ! i, left, gi') \<and>
              melsp ! i =
                clip01 a @ replicate (max_len_pad hp - length a) (replicate (nbins aa) 0) \<and>
              pitch ! i = newaxis c' @ replicate (max_len_pad hp - length c') [sentinel]))) \<and>
     (\<forall>l. collate hp g (map (set_label l) toks) = Inr ((melsp, spk_emb, pitch, len_org), g'))"
  using collate_aligned[OF assms] collate_ignores_labels[of hp g _ toks] assms by simp

theorem batch_aligned_labels_not_returned_witness:
  "collate hp_2_4 seven_rng (map (set_label (Code 5)) sample_batch) =
     Inr ((sample_melsp, [[1, 2], [3, 4]], sample_pitch, [2, 1]), \<lambda>n. seven_rng (Suc n)) \<and>
   length sample_melsp = length sample_batch \<and>
   [2, 1] ! 0 = min (length (frames utt4)) (max_len_seq hp_2_4) \<and>
   [[1, 2], [3, 4]] ! 0 = [1, 2::real]"
proof -
  note t = batch_aligned_labels_not_returned[OF sample_collate]
  have i: "0 < length sample_batch" "sample_batch ! 0 = (utt4, [1, 2], [5, 6, 7, 8], Code 0)"
    by (simp_all add: sample_batch_def)
  from t have a: "collate hp_2_4 seven_rng (map (set_label (Code 5)) sample_batch) =
     Inr ((sample_melsp, [[1, 2], [3, 4]], sample_pitch, [2, 1]), \<lambda>n. seven_rng (Suc n))"
    by blast
  from t have l: "length sample_melsp = length sample_batch" by blast
  note t0 = t[THEN conjunct2, THEN conjunct2, THEN conjunct2, THEN conjunct2, THEN conjunct1,
      rule_format, OF i(1), unfolded i(2) prod.case]
  then have "[[1, 2], [3, 4]] ! 0 = [1, 2::real] \<and>
      [2, 1] ! 0 = min (length (frames utt4)) (max_len_seq hp_2_4)"
    by blast
  with a l show ?thesis by blast
qed

theorem batch_same_for_other_label:
  "returned (collate hp_20 seven_rng [(utt15, [1, 2], f0_15, Code 0)]) =
     Inr ([replicate 15 [1, 0] @ replicate 5 [0, 0]], [[1, 2]],
          [replicate 15 [1 / 4] @ replicate 5 [sentinel]], [15]) \<and>
   returned (collate hp_20 seven_rng [(utt15, [1, 2], f0_15, Code 1)]) =
     Inr ([replicate 15 [1, 0] @ replicate 5 [0, 0]], [[1, 2]],
          [replicate 15 [1 / 4] @ replicate 5 [sentinel]], [15])"
proof -
  have cr: "crop hp_20 seven_rng utt15 f0_15 = Inr (frames utt15, f0_15, 15, None, seven_rng)"
    using crop_short[of utt15 hp_20 seven_rng f0_15] by (simp add: hp_20_def utt15_def)
  have t: "collate_token hp_20 seven_rng (utt15, [1, 2], f0_15, e) =
     Inr ((replicate 15 [1, 0] @ replicate 5 [0, 0], [1, 2],
           replicate 15 [1 / 4] @ replicate 5 [sentinel], 15, e), seven_rng)" for e
    using collate_token_ok[OF cr, of "[1, 2]" e]
    by (simp add: hp_20_def clip01_def newaxis_def utt15_def f0_15_def numeral_2_eq_2)
  show ?thesis
    using collate_single[OF t[of "Code 0"]] collate_single[OF t[of "Code 1"]]
    by (simp add: returned_def)
qed

section \<open>Feature extraction: properties\<close>

lemma saved_ensure_dir [simp]: "saved (ensure_dir p st) = saved st"
  by (simp add: ensure_dir_def)

lemma make_dirs_saved_Inl: "make_dirs g s st = Inl (e, st') \<Longrightarrow> saved st' = saved st"
  by (auto simp: make_dirs_def Let_def split: sum.splits)

lemma make_dirs_saved_Inr: "make_dirs g s st = Inr st' \<Longrightarrow> saved st' = saved st"
  by (auto simp: make_dirs_def Let_def split: sum.splits)

lemma make_dirs_module:
  "make_dirs module_globals s st =
     Inl (NameError ''targetDir_emb'',
          ensure_dir [''assets/vctk_full_raptf0'', s]
            (ensure_dir [''assets/vctk_full_spmel'', s] st))"
  by (simp add: make_dirs_def module_globals_def lookup_def Let_def)

lemma process_speaker_module:
  "process_speaker module_globals x d s st =
     Inl (NameError ''targetDir_emb'',
          ensure_dir [''assets/vctk_full_raptf0'', s]
            (ensure_dir [''assets/vctk_full_spmel'', s] st))"
  by (simp add: process_speaker_def make_dirs_module)

lemma lookup_rootDir: "lookup module_globals ''rootDir'' = Inr ''assets/vctk_full''"
  by (simp add: lookup_def module_globals_def)

lemma script_saves_nothing: "saved (final_out (make_spect_f0 x st)) = saved st"
proof (cases "os_walk x [''assets/vctk_full'']")
  case None
  then show ?thesis
    by (simp add: make_spect_f0_def run_script_def lookup_rootDir final_out_def)
next
  case (Some w)
  obtain subdirList files where w: "w = (subdirList, files)" by (cases w)
  show ?thesis
  proof (cases "sort subdirList")
    case Nil
    with Some w show ?thesis
      by (simp add: make_spect_f0_def run_script_def lookup_rootDir final_out_def)
  next
    case (Cons s rest)
    with Some w show ?thesis
      by (simp add: make_spect_f0_def run_script_def lookup_rootDir final_out_def
          process_speaker_module)
  qed
qed

text \<open>
  Claim C1. Whenever the corpus root holds at least one speaker directory, the script
  stops with a \<open>NameError\<close> for \<open>targetDir_emb\<close> while it creates the output directories
  of the first speaker (in sorted order): the name is not bound in the module. Hence,
  for every corpus, the log of saved artifacts is after the run what it was before.
\<close>

theorem script_fails_on_unbound_targetDir_emb:
  "module_globals ''targetDir_emb'' = None \<and>
   (os_walk x [''assets/vctk_full''] = Some (subdirList, files) \<and> subdirList \<noteq> [] \<longrightarrow>
      make_spect_f0 x st =
        Inl (NameError ''targetDir_emb'',
             ensure_dir [''assets/vctk_full_raptf0'', hd (sort subdirList)]
               (ensure_dir [''assets/vctk_full_spmel'', hd (sort subdirList)] st))) \<and>
   saved (final_out (make_spect_f0 x st)) = saved st"
proof (intro conjI impI)
  show "module_globals ''targetDir_emb'' = None"
    by (simp add: module_globals_def)
  show "saved (final_out (make_spect_f0 x st)) = saved st"
    by (rule script_saves_nothing)
next
  assume a: "os_walk x [''assets/vctk_full''] = Some (subdirList, files) \<and> subdirList \<noteq> []"
  then have "sort subdirList \<noteq> []"
    by (metis length_sort length_0_conv)
  then obtain s rest where sr: "sort subdirList = s # rest"
    by (cases "sort subdirList") auto
  with a show "make_spect_f0 x st =
        Inl (NameError ''targetDir_emb'',
             ensure_dir [''assets/vctk_full_raptf0'', hd (sort subdirList)]
               (ensure_dir [''assets/vctk_full_spmel'', hd (sort subdirList)] st))"
    by (simp add: make_spect_f0_def run_script_def lookup_rootDir process_speaker_module)
qed

theorem script_fails_on_unbound_targetDir_emb_witness:
  "\<exists>st'. make_spect_f0 sample_ext empty_out = Inl (NameError ''targetDir_emb'', st') \<and>
         saved st' = []"
proof -
  have w: "os_walk sample_ext [''assets/vctk_full''] = Some ([''p226'', ''p225''], []) \<and>
           [''p226'', ''p225''] \<noteq> []"
    by (simp add: sample_ext_def)
  show ?thesis
    using script_fails_on_unbound_targetDir_emb
      [of sample_ext "[''p226'', ''p225'']" "[]" empty_out] w
    by (simp add: empty_out_def)
qed

lemma gender_other:
  "tab s = Some gen \<Longrightarrow> gen \<noteq> ''M'' \<Longrightarrow> gen \<noteq> ''F'' \<Longrightarrow> gender_bounds tab s = Inl ValueError"
  by (simp add: gender_bounds_def)

lemma speaker_other_gender:
  assumes "spk2gen x s = Some gen" "gen \<noteq> ''M''" "gen \<noteq> ''F''"
  shows "\<exists>e st'. process_speaker g x d s st = Inl (e, st') \<and> saved st' = saved st"
proof (cases "make_dirs g s st")
  case (Inl p)
  then show ?thesis
    by (cases p) (auto simp: process_speaker_def dest: make_dirs_saved_Inl)
next
  case (Inr st3)
  then show ?thesis
    using gender_other[of "spk2gen x" s gen] assms make_dirs_saved_Inr[OF Inr]
    by (auto simp: process_speaker_def split: option.splits)
qed

lemma speaker_other_gender_ValueError:
  assumes "spk2gen x s = Some gen" "gen \<noteq> ''M''" "gen \<noteq> ''F''"
    "make_dirs g s st = Inr st3" "os_walk x [d, s] = Some w"
  shows "process_speaker g x d s st = Inl (ValueError, st3)"
  using gender_other[of "spk2gen x" s gen] assms
  by (cases w) (simp add: process_speaker_def)

lemma speakers_abort:
  assumes "s \<in> set subdirs" "\<And>st. \<exists>p. process_speaker g x d s st = Inl p"
  shows "\<exists>p. process_speakers g x d subdirs st = Inl p"
  using assms(1)
proof (induction subdirs arbitrary: st)
  case Nil
  then show ?case by simp
next
  case (Cons a subdirs)
  show ?case
  proof (cases "process_speaker g x d a st")
    case (Inl p)
    then show ?thesis by simp
  next
    case (Inr st')
    with assms(2)[of st] have "a \<noteq> s" by auto
    with Cons.prems have "s \<in> set subdirs" by auto
    from Cons.IH[OF this, of st'] Inr show ?thesis by simp
  qed
qed

text \<open>
  Claim C8. The gender label selects the pitch-tracking bounds: \<open>M\<close> gives \<open>(50, 250)\<close>,
  \<open>F\<close> gives \<open>(100, 600)\<close>. For a speaker with any other label the selection raises
  \<open>ValueError\<close>; the speaker's body then ends in an exception with no artifact saved
  (it is this \<open>ValueError\<close> when the directories were created and the file list read),
  and a build whose speaker list contains that speaker ends in an exception.
\<close>

theorem gender_selects_bounds:
  "(tab s = Some ''M'' \<longrightarrow> gender_bounds tab s = Inr (50, 250)) \<and>
   (tab s = Some ''F'' \<longrightarrow> gender_bounds tab s = Inr (100, 600)) \<and>
   (\<forall>gen. spk2gen x s = Some gen \<and> gen \<noteq> ''M'' \<and> gen \<noteq> ''F'' \<longrightarrow>
      gender_bounds (spk2gen x) s = Inl ValueError \<and>
      (\<exists>e st'. process_speaker g x d s st = Inl (e, st') \<and> saved st' = saved st) \<and>
      (\<forall>st3 w. make_dirs g s st = Inr st3 \<and> os_walk x [d, s] = Some w \<longrightarrow>
         process_speaker g x d s st = Inl (ValueError, st3)) \<and>
      (s \<in> set subdirs \<longrightarrow> (\<exists>e st'. process_speakers g x d subdirs st0 = Inl (e, st'))))"
proof (intro conjI allI impI)
  show "gender_bounds tab s = Inr (50, 250)" if "tab s = Some ''M''"
    using that by (simp add: gender_bounds_def)
  show "gender_bounds tab s = Inr (100, 600)" if "tab s = Some ''F''"
    using that by (simp add: gender_bounds_def)
next
  fix gen assume h: "spk2gen x s = Some gen \<and> gen \<noteq> ''M'' \<and> gen \<noteq> ''F''"
  show "gender_bounds (spk2gen x) s = Inl ValueError"
    using h gender_other by blast
  show "\<exists>e st'. process_speaker g x d s st = Inl (e, st') \<and> saved st' = saved st"
    using h speaker_other_gender by blast
  show "process_speaker g x d s st = Inl (ValueError, st3)"
    if "make_dirs g s st = Inr st3 \<and> os_walk x [d, s] = Some w" for st3 w
    using h that speaker_other_gender_ValueError by blast
  show "\<exists>e st'. process_speakers g x d subdirs st0 = Inl (e, st')" if "s \<in> set subdirs"
  proof -
    have "\<exists>p. process_speaker g x d s st = Inl p" for st
      using h speaker_other_gender[of x s gen g d st] by blast
    from speakers_abort[OF that this, of st0] show ?thesis by auto
  qed
qed

lemma sample_make_dirs:
  "make_dirs sample_globals ''p226'' empty_out =
     Inr \<lparr>dirs = [[''assets/vctk_full_spmel'', ''p226''], [''assets/vctk_full_raptf0'', ''p226''],
                  [''assets/vctk_full_emb'', ''p226'']], saved = []\<rparr>"
  by (simp add: make_dirs_def sample_globals_def module_globals_def lookup_def ensure_dir_def
      empty_out_def)

theorem gender_selects_bounds_witness:
  "gender_bounds [''p225'' \<mapsto> ''F'', ''p226'' \<mapsto> ''M''] ''p226'' = Inr (50, 250) \<and>
   gender_bounds [''p225'' \<mapsto> ''F'', ''p226'' \<mapsto> ''M''] ''p225'' = Inr (100, 600) \<and>
   (\<exists>st3. process_speaker sample_globals sample_ext ''assets/vctk_full'' ''p226'' empty_out
      = Inl (ValueError, st3) \<and> saved st3 = []) \<and>
   (\<exists>e st'. process_speakers sample_globals sample_ext ''assets/vctk_full'' [''p225'', ''p226'']
      empty_out = Inl (e, st'))"
proof -
  have g: "spk2gen sample_ext ''p226'' = Some ''X'' \<and> ''X'' \<noteq> ''M'' \<and> ''X'' \<noteq> ''F''"
    by (simp add: sample_ext_def)
  have w: "os_walk sample_ext [''assets/vctk_full'', ''p226''] = Some ([], [''c.wav''])"
    by (simp add: sample_ext_def)
  have m: "[''p225'' \<mapsto> ''F'', ''p226'' \<mapsto> ''M''] ''p226'' = Some ''M''" by simp
  have f: "[''p225'' \<mapsto> ''F'', ''p226'' \<mapsto> ''M''] ''p225'' = Some ''F''" by simp
  have i: "''p226'' \<in> set [''p225'', ''p226'']" by simp
  note t = gender_selects_bounds
      [of "[''p225'' \<mapsto> ''F'', ''p226'' \<mapsto> ''M'']" "''p226''" sample_ext sample_globals
        "''assets/vctk_full''" empty_out "[''p225'', ''p226'']" empty_out]
  note t2 = gender_selects_bounds [of "[''p225'' \<mapsto> ''F'', ''p226'' \<mapsto> ''M'']" "''p225''"]
  show ?thesis
    using t t2 g w m f i sample_make_dirs by (auto simp: empty_out_def)
qed

text \<open>
  Claim C9. The length adjustment appends one sample of value \<open>1e-06\<close> exactly when the
  sample count is a multiple of 256: the length grows by one in that case and the
  waveform is returned as it is in every other case.
\<close>

theorem length_adjust_appends_on_multiple_of_256:
  "(length x mod 256 = 0 \<longrightarrow>
      length_adjust x = x @ [1 / 1000000] \<and> length (length_adjust x) = length x + 1) \<and>
   (length x mod 256 \<noteq> 0 \<longrightarrow> length_adjust x = x) \<and>
   (length (length_adjust x) = length x + 1 \<longleftrightarrow> length x mod 256 = 0)"
  by (simp add: length_adjust_def)

theorem length_adjust_appends_on_multiple_of_256_witness:
  "length_adjust (replicate 512 0) = replicate 512 0 @ [1 / 1000000] \<and>
   length (length_adjust (replicate 512 0)) = 513 \<and>
   length_adjust [1, 2, 3] = [1, 2, 3]"
  using length_adjust_appends_on_multiple_of_256 [of "replicate 512 0"]
    length_adjust_appends_on_multiple_of_256 [of "[1, 2, 3]"]
  by simp

lemma save_triple_bound:
  assumes "g ''targetDir'' = Some d1" "g ''targetDir_f0'' = Some d2" "g ''targetDir_emb'' = Some d3"
  shows "save_triple g s f S f0n emb st =
     Inr (st\<lparr>saved := saved st @ [([d1, s, stem f], Spmel S), ([d2, s, stem f], Raptf0 f0n),
                                  ([d3, s, stem f], Emb emb)]\<rparr>)"
  using assms by (simp add: save_triple_def lookup_def np_save_def Let_def)

lemma save_triple_Inr:
  assumes "save_triple g s f S f0n emb st = Inr st'"
  shows "\<exists>d1 d2 d3. saved st' = saved st @ [([d1, s, stem f], Spmel S),
           ([d2, s, stem f], Raptf0 f0n), ([d3, s, stem f], Emb emb)]"
  using assms
  by (auto simp: save_triple_def lookup_def np_save_def Let_def split: option.splits)

lemma make_dirs_unbound:
  assumes "g ''targetDir'' = None \<or> g ''targetDir_f0'' = None \<or> g ''targetDir_emb'' = None"
  shows "\<exists>e st'. make_dirs g s st = Inl (e, st') \<and> saved st' = saved st"
  using assms
  by (auto simp: make_dirs_def lookup_def Let_def split: option.splits)

lemma process_speaker_unbound:
  assumes "g ''targetDir'' = None \<or> g ''targetDir_f0'' = None \<or> g ''targetDir_emb'' = None"
  shows "\<exists>e st'. process_speaker g x d s st = Inl (e, st') \<and> saved st' = saved st"
  using make_dirs_unbound[OF assms, of s st]
  by (auto simp: process_speaker_def)

text \<open>
  Claim C4. For a file that is loaded, a frame count of the spectrogram that differs from
  that of the pitch contour raises \<open>AssertionError\<close> with the output untouched. When the
  body of the loop completes, either the file was skipped or the two counts are equal
  and exactly the three artifacts of the utterance were appended to the save log. With
  the three directory names bound, an exception of the body leaves the output as it was;
  with one of them unbound, the speaker raises before its first file and saves nothing.
\<close>

theorem assertion_precedes_saves:
  assumes "librosa_load x [d, s, f] = (x0, fs)"
      and "extract_features x b (prng us) x0 fs = (S, f0_rapt, f0_norm, emb, gen')"
  shows
   "(last4 f = ''.wav'' \<and> fs = 16000 \<and> length S \<noteq> length f0_rapt \<longrightarrow>
       process_utterance g x d s b f us = Inl (AssertionError, out us)) \<and>
    (\<forall>us'. process_utterance g x d s b f us = Inr us' \<longrightarrow>
       out us' = out us \<and> last4 f \<noteq> ''.wav'' \<or>
       length S = length f0_rapt \<and>
       (\<exists>d1 d2 d3. saved (out us') = saved (out us) @
          [([d1, s, stem f], Spmel S), ([d2, s, stem f], Raptf0 f0_norm),
           ([d3, s, stem f], Emb emb)])) \<and>
    (g ''targetDir'' \<noteq> None \<and> g ''targetDir_f0'' \<noteq> None \<and> g ''targetDir_emb'' \<noteq> None \<longrightarrow>
       (\<forall>e st'. process_utterance g x d s b f us = Inl (e, st') \<longrightarrow> st' = out us)) \<and>
    (g ''targetDir'' = None \<or> g ''targetDir_f0'' = None \<or> g ''targetDir_emb'' = None \<longrightarrow>
       (\<exists>e st'. process_speaker g x d s st = Inl (e, st') \<and> saved st' = saved st))"
proof (intro conjI impI allI)
  show "process_utterance g x d s b f us = Inl (AssertionError, out us)"
    if "last4 f = ''.wav'' \<and> fs = 16000 \<and> length S \<noteq> length f0_rapt"
    using that assms by (simp add: process_utterance_def)
next
  fix us' assume r: "process_utterance g x d s b f us = Inr us'"
  show "out us' = out us \<and> last4 f \<noteq> ''.wav'' \<or>
       length S = length f0_rapt \<and>
       (\<exists>d1 d2 d3. saved (out us') = saved (out us) @
          [([d1, s, stem f], Spmel S), ([d2, s, stem f], Raptf0 f0_norm),
           ([d3, s, stem f], Emb emb)])"
  proof (cases "last4 f = ''.wav''")
    case False
    with r show ?thesis by (simp add: process_utterance_def)
  next
    case True
    with r assms have eq: "length S = length f0_rapt"
      by (auto simp: process_utterance_def split: if_splits)
    with r assms True obtain st where st: "save_triple g s f S f0_norm emb (out us) = Inr st"
      and "out us' = st"
      by (auto simp: process_utterance_def split: if_splits sum.splits)
    with eq save_triple_Inr[OF st] show ?thesis by simp
  qed
next
  fix e st'
  assume bound: "g ''targetDir'' \<noteq> None \<and> g ''targetDir_f0'' \<noteq> None \<and> g ''targetDir_emb'' \<noteq> None"
    and r: "process_utterance g x d s b f us = Inl (e, st')"
  from bound obtain d1 d2 d3 where
    "g ''targetDir'' = Some d1" "g ''targetDir_f0'' = Some d2" "g ''targetDir_emb'' = Some d3"
    by auto
  from save_triple_bound[OF this] r assms show "st' = out us"
    by (auto simp: process_utterance_def split: if_splits)
next
  assume "g ''targetDir'' = None \<or> g ''targetDir_f0'' = None \<or> g ''targetDir_emb'' = None"
  then show "\<exists>e st'. process_speaker g x d s st = Inl (e, st') \<and> saved st' = saved st"
    by (rule process_speaker_unbound)
qed

lemma sample_features:
  "\<exists>S f0n gen'. extract_features sample_ext (100, 600) (\<lambda>k. 1 / 2) [0, 0] 16000
     = (S, [100, 120], f0n, [1], gen') \<and> length S = 2"
  by (simp add: extract_features_def sample_ext_def Let_def rand_def to_S_def split_def)

lemma short_features:
  "\<exists>S f0n gen'. extract_features short_pitch_ext (100, 600) (\<lambda>k. 1 / 2) [0, 0] 16000
     = (S, [100], f0n, [1], gen') \<and> length S = 2"
  by (simp add: extract_features_def short_pitch_ext_def sample_ext_def Let_def rand_def to_S_def split_def)

theorem assertion_precedes_saves_witness:
  "process_utterance sample_globals short_pitch_ext ''assets/vctk_full'' ''p225'' (100, 600)
     ''a.wav'' start_state = Inl (AssertionError, empty_out) \<and>
   (\<exists>us'. process_utterance sample_globals sample_ext ''assets/vctk_full'' ''p225'' (100, 600)
     ''a.wav'' start_state = Inr us' \<and>
     map fst (saved (out us')) =
       [[''assets/vctk_full_spmel'', ''p225'', ''a''], [''assets/vctk_full_raptf0'', ''p225'', ''a''],
        [''assets/vctk_full_emb'', ''p225'', ''a'']])"
proof -
  obtain S f0n gen' where f1: "extract_features short_pitch_ext (100, 600) (prng start_state) [0, 0] 16000
     = (S, [100], f0n, [1], gen')" and l1: "length S = 2"
    using short_features by (auto simp: start_state_def)
  have ld1: "librosa_load short_pitch_ext [''assets/vctk_full'', ''p225'', ''a.wav''] = ([0, 0], 16000)"
    by (simp add: short_pitch_ext_def sample_ext_def)
  have w: "last4 ''a.wav'' = ''.wav''" by (simp add: last4_def)
  have a: "process_utterance sample_globals short_pitch_ext ''assets/vctk_full'' ''p225'' (100, 600)
     ''a.wav'' start_state = Inl (AssertionError, empty_out)"
    using assertion_precedes_saves[OF ld1 f1, of sample_globals] w l1 by (simp add: start_state_def)
  obtain S2 f0n2 gen2 where f2: "extract_features sample_ext (100, 600) (prng start_state) [0, 0] 16000
     = (S2, [100, 120], f0n2, [1], gen2)" and l2: "length S2 = 2"
    using sample_features by (auto simp: start_state_def)
  have ld2: "librosa_load sample_ext [''assets/vctk_full'', ''p225'', ''a.wav''] = ([0, 0], 16000)"
    by (simp add: sample_ext_def)
  have sv: "save_triple sample_globals ''p225'' ''a.wav'' S2 f0n2 [1] empty_out =
     Inr (empty_out\<lparr>saved := saved empty_out @ [([''assets/vctk_full_spmel'', ''p225'', stem ''a.wav''], Spmel S2),
        ([''assets/vctk_full_raptf0'', ''p225'', stem ''a.wav''], Raptf0 f0n2),
        ([''assets/vctk_full_emb'', ''p225'', stem ''a.wav''], Emb [1])]\<rparr>)"
    by (rule save_triple_bound) (simp_all add: sample_globals_def module_globals_def)
  have b: "\<exists>us'. process_utterance sample_globals sample_ext ''assets/vctk_full'' ''p225'' (100, 600)
     ''a.wav'' start_state = Inr us' \<and>
     map fst (saved (out us')) =
       [[''assets/vctk_full_spmel'', ''p225'', ''a''], [''assets/vctk_full_raptf0'', ''p225'', ''a''],
        [''assets/vctk_full_emb'', ''p225'', ''a'']]"
    using ld2 f2 l2 w sv
    by (simp add: process_utterance_def start_state_def empty_out_def stem_def)
  from a b show ?thesis by simp
qed

lemma mask_select_voiced:
  "mask_select f0 (index_nonzero f0) = filter (\<lambda>v. v \<noteq> sentinel) f0"
  by (induction f0) (simp_all add: mask_select_def index_nonzero_def)

lemma length_speaker_normalization:
  "length (speaker_normalization f0 (index_nonzero f0) m s) = length f0"
  by (simp add: speaker_normalization_def index_nonzero_def)

lemma speaker_normalization_map:
  "speaker_normalization f0 (index_nonzero f0) m s =
     map (\<lambda>v. if v \<noteq> sentinel then zscore m s v else Some v) f0"
  by (induction f0) (simp_all add: speaker_normalization_def index_nonzero_def)

lemma normalize_f0_map:
  "normalize_f0 f0 =
     map (\<lambda>v. if v \<noteq> sentinel
              then zscore (np_mean (mask_select f0 (index_nonzero f0)))
                     (np_std (mask_select f0 (index_nonzero f0))) v
              else Some v) f0"
  by (simp add: normalize_f0_def Let_def speaker_normalization_map)

lemma mask_select_map_voiced:
  "mask_select (map (\<lambda>v. if v \<noteq> sentinel then h v else k v) f0) (index_nonzero f0) =
     map h (filter (\<lambda>v. v \<noteq> sentinel) f0)"
  by (induction f0) (simp_all add: mask_select_def index_nonzero_def)

lemma sum_list_shift:
  "sum_list (map (\<lambda>v. (v - m) / s) vs) = (sum_list vs - real (length vs) * m) / (s::real)"
  by (induction vs) (simp_all add: add_divide_distrib[symmetric] algebra_simps)

lemma zmean:
  assumes "vs \<noteq> []" "np_mean vs = Some m"
  shows "np_mean (map (\<lambda>v. (v - m) / s) vs) = Some 0"
proof -
  from assms have m: "m = sum_list vs / real (length vs)" by (simp add: np_mean_def)
  from assms(1) have "real (length vs) \<noteq> 0" by simp
  with m have "sum_list vs - real (length vs) * m = 0" by simp
  with assms(1) show ?thesis by (simp add: np_mean_def sum_list_shift)
qed

lemma sum_list_sq_scale:
  "sum_list (map (\<lambda>v. ((v - m) / s)\<^sup>2) vs) =
     sum_list (map (\<lambda>v. (v - m)\<^sup>2) vs) / (s::real)\<^sup>2"
  by (induction vs) (simp_all add: power_divide add_divide_distrib)

lemma zstd:
  assumes "vs \<noteq> []" "np_mean vs = Some m" "np_std vs = Some s" "s \<noteq> 0"
  shows "np_std (map (\<lambda>v. (v - m) / s) vs) = Some 1"
proof -
  let ?n = "real (length vs)"
  let ?q = "sum_list (map (\<lambda>v. (v - m)\<^sup>2) vs) / ?n"
  from assms have s: "s = sqrt ?q" by (simp add: np_std_def)
  have q0: "0 \<le> ?q" by (intro divide_nonneg_nonneg sum_list_nonneg) auto
  with s have s2: "s\<^sup>2 = ?q" by simp
  from assms(4) have s2n: "s\<^sup>2 \<noteq> 0" by simp
  have "sum_list (map (\<lambda>z. (z - 0)\<^sup>2) (map (\<lambda>v. (v - m) / s) vs)) =
      sum_list (map (\<lambda>v. ((v - m) / s)\<^sup>2) vs)"
    by (simp add: comp_def)
  then have "sum_list (map (\<lambda>z. (z - 0)\<^sup>2) (map (\<lambda>v. (v - m) / s) vs)) / ?n = ?q / s\<^sup>2"
    by (simp only: sum_list_sq_scale) simp
  also have "\<dots> = 1" using s2 s2n by simp
  finally have v: "sum_list (map (\<lambda>z. (z - 0)\<^sup>2) (map (\<lambda>v. (v - m) / s) vs)) / ?n = 1" .
  have zm: "np_mean (map (\<lambda>v. (v - m) / s) vs) = Some 0" using assms(1,2) by (rule zmean)
  have "np_std (map (\<lambda>v. (v - m) / s) vs) =
      Some (sqrt (sum_list (map (\<lambda>z. (z - 0)\<^sup>2) (map (\<lambda>v. (v - m) / s) vs)) / ?n))"
    unfolding np_std_def zm by (simp only: option.case length_map)
  then show ?thesis by (simp only: v real_sqrt_one)
qed

text \<open>
  Claim C7, as amended. The normalized contour has the length of the raw one; an unvoiced
  frame stays the sentinel and a voiced frame becomes its z-score with the mean and the
  standard deviation of the voiced frames. When there is a voiced frame and that
  standard deviation is not zero, the normalized voiced values have mean 0 and standard
  deviation 1 (over the reals).
\<close>

theorem normalization_zscore_on_voiced:
  fixes f0 :: "real list"
  defines "vs \<equiv> mask_select f0 (index_nonzero f0)"
  shows
  "length (normalize_f0 f0) = length f0 \<and>
   (\<forall>i<length f0. f0 ! i = sentinel \<longrightarrow> normalize_f0 f0 ! i = Some sentinel) \<and>
   (\<forall>i<length f0. f0 ! i \<noteq> sentinel \<longrightarrow>
       normalize_f0 f0 ! i = zscore (np_mean vs) (np_std vs) (f0 ! i)) \<and>
   (\<forall>m s. np_mean vs = Some m \<and> np_std vs = Some s \<and> s \<noteq> 0 \<longrightarrow>
       mask_select (normalize_f0 f0) (index_nonzero f0) = map (\<lambda>v. Some ((v - m) / s)) vs \<and>
       np_mean (map (\<lambda>v. (v - m) / s) vs) = Some 0 \<and>
       np_std (map (\<lambda>v. (v - m) / s) vs) = Some 1)"
proof (intro conjI allI impI)
  show "length (normalize_f0 f0) = length f0" by (simp add: normalize_f0_map)
  show "normalize_f0 f0 ! i = Some sentinel" if "i < length f0" "f0 ! i = sentinel" for i
    using that by (simp add: normalize_f0_map)
  show "normalize_f0 f0 ! i = zscore (np_mean vs) (np_std vs) (f0 ! i)"
    if "i < length f0" "f0 ! i \<noteq> sentinel" for i
    using that by (simp add: normalize_f0_map vs_def)
next
  fix m s assume h: "np_mean vs = Some m \<and> np_std vs = Some s \<and> s \<noteq> 0"
  then have ne: "vs \<noteq> []" by (auto simp: np_mean_def split: if_splits)
  have z: "zscore (np_mean vs) (np_std vs) = (\<lambda>v. Some ((v - m) / s))"
    using h by (auto simp: zscore_def)
  show "mask_select (normalize_f0 f0) (index_nonzero f0) = map (\<lambda>v. Some ((v - m) / s)) vs"
    unfolding normalize_f0_map mask_select_map_voiced
    using z by (simp add: vs_def mask_select_voiced)
  show "np_mean (map (\<lambda>v. (v - m) / s) vs) = Some 0" using ne h zmean by blast
  show "np_std (map (\<lambda>v. (v - m) / s) vs) = Some 1" using ne h zstd by blast
qed

lemma ex_sel: "mask_select [1, sentinel, 3] (index_nonzero [1, sentinel, 3]) = [1, 3]"
  by (simp add: mask_select_def index_nonzero_def sentinel_def)

lemma ex_std: "np_std [1, 3] = Some 1" "np_mean [1, 3] = Some 2"
  by (simp_all add: np_std_def np_mean_def)

theorem normalization_zscore_on_voiced_witness:
  "mask_select (normalize_f0 [1, sentinel, 3]) (index_nonzero [1, sentinel, 3]) =
     [Some (- 1), Some 1] \<and>
   normalize_f0 [1, sentinel, 3] ! 1 = Some sentinel \<and>
   np_mean [- 1, 1] = Some 0 \<and> np_std [- 1, 1] = Some 1"
  using normalization_zscore_on_voiced[of "[1, sentinel, 3]", unfolded ex_sel ex_std] by simp

theorem normalization_degenerate_contour:
  "normalize_f0 [100, 100] = [None, None] \<and>
   np_std (mask_select [100, 100] (index_nonzero [100, 100])) = Some 0 \<and>
   mask_select [sentinel, sentinel] (index_nonzero [sentinel, sentinel]) = ([] :: real list) \<and>
   np_mean ([] :: real list) = None"
  by (simp add: normalize_f0_def speaker_normalization_def index_nonzero_def mask_select_def
      np_std_def np_mean_def zscore_def sentinel_def Let_def)

end
